theory Spec2Isabelle
  imports Main "HOL-Library.AList"
begin

section \<open>Strings of the bridge\<close>

text \<open>
  A JavaScript string is modelled as a \<^typ>\<open>string\<close>: a list of 8-bit characters, read as
  the code units below 256. The operations below are the ones the bridge calls on strings:
  \<^verbatim>\<open>trim\<close>, \<^verbatim>\<open>toLowerCase\<close>, \<^verbatim>\<open>startsWith\<close>, the test of the regular expression
  \<^verbatim>\<open>/^\d+$/\<close>, \<^verbatim>\<open>split("\n")\<close>, \<^verbatim>\<open>join\<close> and \<^verbatim>\<open>includes\<close>.
\<close>

definition newline :: char where
  "newline = CHR 0x0A"

definition is_ws :: "char \<Rightarrow> bool" where
  \<comment> \<open>the white space and line terminators that \<^verbatim>\<open>trim\<close> removes, among the code units below 256\<close>
  "is_ws c = (c \<in> {CHR 0x09, CHR 0x0A, CHR 0x0B, CHR 0x0C, CHR 0x0D, CHR 0x20, CHR 0xA0})"

definition trim :: "string \<Rightarrow> string" where
  "trim s = rev (dropWhile is_ws (rev (dropWhile is_ws s)))"

definition toLowerCase_char :: "char \<Rightarrow> char" where
  \<comment> \<open>A-Z and the upper-case letters of Latin-1 get bit 5 set\<close>
  "toLowerCase_char c =
     (let n = (of_char c :: nat)
      in if (65 \<le> n \<and> n \<le> 90) \<or> (192 \<le> n \<and> n \<le> 222 \<and> n \<noteq> 215)
         then Char (digit0 c) (digit1 c) (digit2 c) (digit3 c) (digit4 c) True (digit6 c) (digit7 c)
         else c)"

definition toLowerCase :: "string \<Rightarrow> string" where
  "toLowerCase s = map toLowerCase_char s"

definition startsWith :: "string \<Rightarrow> string \<Rightarrow> bool" where
  "startsWith s p = (take (length p) s = p)"

definition is_digit :: "char \<Rightarrow> bool" where
  "is_digit c = (c \<in> set ''0123456789'')"

definition digits_only :: "string \<Rightarrow> bool" where
  \<comment> \<open>\<^verbatim>\<open>/^\d+$/.test(s)\<close>\<close>
  "digits_only s = (s \<noteq> [] \<and> list_all is_digit s)"

fun split_nl :: "string \<Rightarrow> string list" where
  \<comment> \<open>\<^verbatim>\<open>s.split("\n")\<close>: never empty, a trailing newline leaves a trailing empty entry\<close>
  "split_nl [] = [[]]"
| "split_nl (c # cs) =
     (if c = newline then [] # split_nl cs
      else (case split_nl cs of [] \<Rightarrow> [[c]] | l # ls \<Rightarrow> (c # l) # ls))"

fun join :: "string \<Rightarrow> string list \<Rightarrow> string" where
  "join sep [] = []"
| "join sep [x] = x"
| "join sep (x # y # ys) = x @ sep @ join sep (y # ys)"

fun includes_str :: "string \<Rightarrow> string \<Rightarrow> bool" where
  \<comment> \<open>\<^verbatim>\<open>s.includes(sub)\<close>\<close>
  "includes_str [] sub = (sub = [])"
| "includes_str (c # cs) sub = (startsWith (c # cs) sub \<or> includes_str cs sub)"

fun digits_of :: "nat \<Rightarrow> string" where
  "digits_of n =
     (if n < 10 then [''0123456789'' ! n]
      else digits_of (n div 10) @ [''0123456789'' ! (n mod 10)])"

declare digits_of.simps [simp del]

definition num_str :: "int \<Rightarrow> string" where
  \<comment> \<open>a JavaScript number that is an integer below \<open>10^21\<close> in magnitude, as a string\<close>
  "num_str n = (if n < 0 then ''-'' @ digits_of (nat (- n)) else digits_of (nat n))"


section \<open>Values received from the remote service\<close>

text \<open>
  The value that \<^verbatim>\<open>response.data\<close> holds after a JSON request: any JSON value, a number being
  an integer (the counts, sizes and ids the service reports). The pairs of an object are
  in the order in which the object enumerates its own properties, each key once.
  \<^verbatim>\<open>undefined\<close>, the value of a missing property, is \<^term>\<open>None\<close> of \<^typ>\<open>'a option\<close>.
\<close>

datatype json =
    JNull
  | JBool bool
  | JNum int
  | JStr string
  | JArr "json list"
  | JObj "(string \<times> json) list"

datatype exn = TypeError

fun truthy :: "json \<Rightarrow> bool" where
  "truthy JNull = False"
| "truthy (JBool b) = b"
| "truthy (JNum n) = (n \<noteq> 0)"
| "truthy (JStr s) = (s \<noteq> [])"
| "truthy (JArr xs) = True"
| "truthy (JObj kvs) = True"

fun truthy_opt :: "json option \<Rightarrow> bool" where
  "truthy_opt None = False"
| "truthy_opt (Some v) = truthy v"

definition js_or :: "json option \<Rightarrow> json \<Rightarrow> json" where
  \<comment> \<open>\<^verbatim>\<open>a || b\<close>\<close>
  "js_or a b = (case a of None \<Rightarrow> b | Some v \<Rightarrow> if truthy v then v else b)"

fun typeof_object :: "json \<Rightarrow> bool" where
  \<comment> \<open>\<^verbatim>\<open>typeof v === "object"\<close>\<close>
  "typeof_object JNull = True"
| "typeof_object (JArr xs) = True"
| "typeof_object (JObj kvs) = True"
| "typeof_object v = False"

fun has_key :: "string \<Rightarrow> json \<Rightarrow> exn + bool" where
  \<comment> \<open>\<^verbatim>\<open>k in v\<close>, for the keys the bridge tests (\<^verbatim>\<open>error\<close>, \<^verbatim>\<open>status\<close>, \<^verbatim>\<open>strings\<close>,
      \<^verbatim>\<open>filename\<close>): none of them is inherited, and \<^verbatim>\<open>in\<close> throws on a primitive\<close>
  "has_key k (JObj kvs) = Inr (k \<in> fst ` set kvs)"
| "has_key k (JArr xs) = Inr False"
| "has_key k v = Inl TypeError"

fun field :: "json \<Rightarrow> string \<Rightarrow> json option" where
  \<comment> \<open>\<^verbatim>\<open>v.k\<close> on a value that is not \<^verbatim>\<open>null\<close>, for the property names the bridge reads\<close>
  "field (JObj kvs) k = map_of kvs k"
| "field (JArr xs) k = (if k = ''length'' then Some (JNum (int (length xs))) else None)"
| "field (JStr s) k = (if k = ''length'' then Some (JNum (int (length s))) else None)"
| "field v k = None"

fun to_str :: "json \<Rightarrow> string" where
  \<comment> \<open>\<^verbatim>\<open>String(v)\<close>, which is also what a template literal inserts\<close>
  "to_str JNull = ''null''"
| "to_str (JBool b) = (if b then ''true'' else ''false'')"
| "to_str (JNum n) = num_str n"
| "to_str (JStr s) = s"
| "to_str (JArr xs) = join '','' (map (\<lambda>x. if x = JNull then [] else to_str x) xs)"
| "to_str (JObj kvs) = ''[object Object]''"

definition tmpl :: "json option \<Rightarrow> string" where
  \<comment> \<open>\<^verbatim>\<open>`${v}`\<close> for a value that may be \<^verbatim>\<open>undefined\<close>\<close>
  "tmpl v = (case v of None \<Rightarrow> ''undefined'' | Some x \<Rightarrow> to_str x)"

definition quote_char :: "char \<Rightarrow> string" where
  "quote_char c =
     (if c = CHR 0x22 then [CHR 0x5C, CHR 0x22]
      else if c = CHR 0x5C then [CHR 0x5C, CHR 0x5C]
      else if c = CHR 0x08 then [CHR 0x5C, CHR ''b'']
      else if c = CHR 0x0C then [CHR 0x5C, CHR ''f'']
      else if c = CHR 0x0A then [CHR 0x5C, CHR ''n'']
      else if c = CHR 0x0D then [CHR 0x5C, CHR ''r'']
      else if c = CHR 0x09 then [CHR 0x5C, CHR ''t'']
      else if (of_char c :: nat) < 32
        then [CHR 0x5C, CHR ''u'', CHR ''0'', CHR ''0'',
              ''0123456789abcdef'' ! ((of_char c :: nat) div 16),
              ''0123456789abcdef'' ! ((of_char c :: nat) mod 16)]
      else [c])"

definition quote :: "string \<Rightarrow> string" where
  "quote s = [CHR 0x22] @ concat (map quote_char s) @ [CHR 0x22]"

fun JSON_stringify :: "json \<Rightarrow> string" where
  \<comment> \<open>\<^verbatim>\<open>JSON.stringify(v)\<close> without indentation\<close>
  "JSON_stringify JNull = ''null''"
| "JSON_stringify (JBool b) = (if b then ''true'' else ''false'')"
| "JSON_stringify (JNum n) = num_str n"
| "JSON_stringify (JStr s) = quote s"
| "JSON_stringify (JArr xs) = ''['' @ join '','' (map JSON_stringify xs) @ '']''"
| "JSON_stringify (JObj kvs) =
     ''{'' @ join '','' (map (\<lambda>(k, v). quote k @ '':'' @ JSON_stringify v) kvs) @ ''}''"

fun array_join :: "string \<Rightarrow> json \<Rightarrow> exn + string" where
  \<comment> \<open>\<^verbatim>\<open>v.join(sep)\<close>: only an array has the method; \<^verbatim>\<open>null\<close> entries are left empty\<close>
  "array_join sep (JArr xs) = Inr (join sep (map (\<lambda>x. if x = JNull then [] else to_str x) xs))"
| "array_join sep v = Inl TypeError"


section \<open>The transport client\<close>

text \<open>
  A request is the endpoint and the query parameters in the order in which the handler
  stored them; no handler passes a timeout of its own. The remote service is a parameter
  of the model: the \<open>n\<close>-th request of a run is answered by the \<open>n\<close>-th reply, and the
  requests sent are recorded. A reply is what comes back from the network: a response
  (status, status text, data), or none (connection refused, hang-up, timeout).

  The client is created by \<^verbatim>\<open>axios.create({ baseURL, timeout })\<close>, with no
  \<^verbatim>\<open>validateStatus\<close> of its own, so the library's default decides how the promise of
  \<^verbatim>\<open>client.get\<close> settles: it resolves with a response whose status is in 200..299 and
  rejects with an error that holds the response otherwise; without a response it rejects
  with an error that holds the request.
\<close>

datatype pval = PStr string | PNum int

type_synonym params = "(string \<times> pval) list"

datatype call = GetText string params | GetJson string params

datatype 'd reply =
    Response int string 'd
  | NoResponse string
      \<comment> \<open>the message of the error, such as \<^verbatim>\<open>timeout of 30000ms exceeded\<close>\<close>

datatype failure =
    AxiosError "(int \<times> string) option" bool string
      \<comment> \<open>\<^verbatim>\<open>error.response\<close> (status, status text) if any, whether \<^verbatim>\<open>error.request\<close> is set,
          \<^verbatim>\<open>error.message\<close>\<close>
  | Thrown string
      \<comment> \<open>anything else that was thrown, as \<^verbatim>\<open>String(error)\<close>\<close>

datatype 'd settled = Resolved int string 'd | Rejected failure

record net =
  json_replies :: "nat \<Rightarrow> json reply"
  text_replies :: "nat \<Rightarrow> string reply"
  sent :: "call list"

definition validateStatus :: "int \<Rightarrow> bool" where
  \<comment> \<open>the default of the HTTP library\<close>
  "validateStatus status = (200 \<le> status \<and> status < 300)"

definition client_get :: "'d reply \<Rightarrow> 'd settled" where
  \<comment> \<open>how the promise of \<^verbatim>\<open>this.client.get(...)\<close> settles\<close>
  "client_get r =
     (case r of
        Response status statusText data \<Rightarrow>
          if validateStatus status then Resolved status statusText data
          else Rejected (AxiosError (Some (status, statusText)) True
                 (''Request failed with status code '' @ num_str status))
      | NoResponse msg \<Rightarrow> Rejected (AxiosError None True msg))"

fun getErrorMessage :: "failure \<Rightarrow> string" where
  "getErrorMessage (AxiosError (Some (status, statusText)) req msg) =
     ''Server returned '' @ num_str status @ '': '' @ statusText"
| "getErrorMessage (AxiosError None True msg) =
     ''No response from server - is Binary Ninja running with the MCP plugin?''"
| "getErrorMessage (AxiosError None False msg) = msg"
| "getErrorMessage (Thrown s) = s"

definition handleError :: "failure \<Rightarrow> string \<Rightarrow> string \<Rightarrow> string" where
  "handleError error method endpoint =
     ''Error: '' @ method @ '' '' @ endpoint @ '' failed: '' @ getErrorMessage error"

definition getText_body :: "string \<Rightarrow> string settled \<Rightarrow> string" where
  \<comment> \<open>the \<^verbatim>\<open>try\<close> and \<^verbatim>\<open>catch\<close> of \<^verbatim>\<open>getText\<close>, given how \<^verbatim>\<open>client.get\<close> settled\<close>
  "getText_body endpoint r =
     (case r of
        Resolved status statusText data \<Rightarrow>
          if 200 \<le> status \<and> status < 300 then data
          else ''Error '' @ num_str status @ '': '' @ data
      | Rejected error \<Rightarrow> handleError error ''GET'' endpoint)"

definition text_result :: "string \<Rightarrow> string reply \<Rightarrow> string" where
  \<comment> \<open>what \<^verbatim>\<open>getText\<close> returns for a reply\<close>
  "text_result endpoint r = getText_body endpoint (client_get r)"

definition getText :: "string \<Rightarrow> params \<Rightarrow> net \<Rightarrow> string \<times> net" where
  "getText endpoint ps n =
     (text_result endpoint (text_replies n (length (sent n))),
      n\<lparr>sent := sent n @ [GetText endpoint ps]\<rparr>)"

definition getJson_body :: "json settled \<Rightarrow> json" where
  \<comment> \<open>the \<^verbatim>\<open>try\<close> and \<^verbatim>\<open>catch\<close> of \<^verbatim>\<open>getJson\<close>, given how \<^verbatim>\<open>client.get\<close> settled\<close>
  "getJson_body r =
     (case r of
        Resolved status statusText data \<Rightarrow>
          if 200 \<le> status \<and> status < 300 then data
          else if truthy data \<and> typeof_object data \<and> has_key ''error'' data = Inr True then data
          else JObj [(''error'', JStr (''Error '' @ num_str status @ '': '' @ statusText))]
      | Rejected error \<Rightarrow>
          JObj [(''error'', JStr (''Request failed: '' @ getErrorMessage error))])"

definition json_result :: "json reply \<Rightarrow> json" where
  \<comment> \<open>what \<^verbatim>\<open>getJson\<close> returns for a reply\<close>
  "json_result r = getJson_body (client_get r)"

definition getJson :: "string \<Rightarrow> params \<Rightarrow> net \<Rightarrow> json \<times> net" where
  "getJson endpoint ps n =
     (json_result (json_replies n (length (sent n))),
      n\<lparr>sent := sent n @ [GetJson endpoint ps]\<rparr>)"

definition getLines :: "string \<Rightarrow> params \<Rightarrow> net \<Rightarrow> string list \<times> net" where
  "getLines endpoint ps n = (let (text, n') = getText endpoint ps n in (split_nl text, n'))"


section \<open>Operation handlers\<close>

text \<open>
  A handler takes its arguments and the network and returns the text of its payload, or
  the exception that escapes it, together with the network after its requests.
\<close>

type_synonym result = "(exn + string) \<times> net"

definition getActiveFilename :: "net \<Rightarrow> json \<times> net" where
  "getActiveFilename n =
     (let (data, n') = getJson ''status'' [] n
      in (if truthy data \<and> typeof_object data \<and> has_key ''filename'' data = Inr True
          then js_or (field data ''filename'') (JStr ''(none)'')
          else JStr ''(none)'', n'))"

datatype il_view = Hlil | Mlil | Llil

fun view_name :: "il_view \<Rightarrow> string" where
  "view_name Hlil = ''hlil''"
| "view_name Mlil = ''mlil''"
| "view_name Llil = ''llil''"

definition stringify_opt :: "json option \<Rightarrow> string" where
  "stringify_opt v = (case v of None \<Rightarrow> ''undefined'' | Some x \<Rightarrow> JSON_stringify x)"

definition get_il :: "string \<Rightarrow> il_view \<Rightarrow> bool \<Rightarrow> net \<Rightarrow> result" where
  "get_il name_or_address view ssa n =
     (let (filename, n1) = getActiveFilename n;
          ident = trim name_or_address;
          params0 = [(''view'', PStr (view_name view)), (''ssa'', PNum (if ssa then 1 else 0))];
          ps = (if startsWith (toLowerCase ident) ''0x'' \<or> digits_only ident
                then AList.update ''address'' (PStr ident) params0
                else AList.update ''name'' (PStr ident) params0);
          (data, n2) = getJson ''il'' ps n1;
          header = ''File: '' @ to_str filename @ [newline, newline]
      in if \<not> truthy data then (Inr (header @ ''Error: no response''), n2)
         else case has_key ''error'' data of
             Inl e \<Rightarrow> (Inl e, n2)
           | Inr True \<Rightarrow> (Inr (header @ ''Error: '' @ stringify_opt (field data ''error'')), n2)
           | Inr False \<Rightarrow> (Inr (header @ to_str (js_or (field data ''il'') (JStr []))), n2))"

definition fetch_disassembly :: "string \<Rightarrow> net \<Rightarrow> result" where
  "fetch_disassembly name n =
     (let (filename, n1) = getActiveFilename n;
          (data, n2) = getJson ''assembly'' [(''name'', PStr name)] n1;
          header = ''File: '' @ to_str filename @ [newline, newline]
      in if \<not> truthy data then (Inr (header @ ''Error: no response''), n2)
         else case has_key ''error'' data of
             Inl e \<Rightarrow> (Inl e, n2)
           | Inr True \<Rightarrow> (Inr (header @ ''Error: '' @ tmpl (field data ''error'')), n2)
           | Inr False \<Rightarrow> (Inr (header @ to_str (js_or (field data ''assembly'') (JStr []))), n2))"

definition get_comment :: "string \<Rightarrow> net \<Rightarrow> result" where
  "get_comment address n =
     (let (lines, n') = getLines ''comment'' [(''address'', PStr address)] n
      in (Inr (case lines of [] \<Rightarrow> [] | l # ls \<Rightarrow> l), n'))"

definition get_function_comment :: "string \<Rightarrow> net \<Rightarrow> result" where
  "get_function_comment function_name n =
     (let (lines, n') = getLines ''comment/function'' [(''name'', PStr function_name)] n
      in (Inr (case lines of [] \<Rightarrow> [] | l # ls \<Rightarrow> if l \<noteq> [] then l else []), n'))"

definition hexdump_data :: "string \<Rightarrow> int \<Rightarrow> net \<Rightarrow> result" where
  "hexdump_data name_or_address len n =
     (let ident = trim name_or_address
      in if startsWith ident ''0x''
         then (let params0 = [(''address'', PStr ident)];
                   ps = (if len \<noteq> - 1 then AList.update ''length'' (PNum len) params0 else params0);
                   (text, n') = getText ''hexdump'' ps n
               in (Inr text, n'))
         else (let params0 = [(''name'', PStr ident)];
                   ps = (if len \<noteq> - 1 then AList.update ''length'' (PNum len) params0 else params0);
                   (text, n') = getText ''hexdumpByName'' ps n
               in (Inr text, n')))"

definition get_data_decl :: "string \<Rightarrow> int \<Rightarrow> net \<Rightarrow> result" where
  "get_data_decl name_or_address len n =
     (let ident = trim name_or_address;
          params0 = (if startsWith ident ''0x'' then [(''address'', PStr ident)]
                     else [(''name'', PStr ident)]);
          ps = (if len \<noteq> - 1 then AList.update ''length'' (PNum len) params0 else params0);
          (data, n') = getJson ''getDataDecl'' ps n
      in if \<not> truthy data then (Inr ''Error: no response'', n')
         else case has_key ''error'' data of
             Inl e \<Rightarrow> (Inl e, n')
           | Inr True \<Rightarrow> (Inr (''Error: '' @ tmpl (field data ''error'')), n')
           | Inr False \<Rightarrow>
               (let decl = js_or (field data ''decl'') (JStr ''(no declaration)'');
                    hexdump = js_or (field data ''hexdump'') (JStr []);
                    addr = js_or (field data ''address'') (JStr []);
                    name = js_or (field data ''name'') (JStr ident)
                in (Inr (''Declaration ('' @ to_str addr @ '' '' @ to_str name @ ''):'' @ [newline]
                         @ to_str decl @ [newline, newline] @ ''Hexdump:'' @ [newline]
                         @ to_str hexdump), n')))"

definition get_stack_frame_vars :: "string \<Rightarrow> net \<Rightarrow> result" where
  "get_stack_frame_vars function_identifier n =
     (let ident = trim function_identifier;
          ps = (if startsWith (toLowerCase ident) ''0x'' \<or> digits_only ident
                then [(''address'', PStr ident)]
                else [(''name'', PStr ident)]);
          (data, n') = getJson ''getStackFrameVars'' ps n
      in if \<not> truthy data then (Inr [], n')
         else case has_key ''error'' data of
             Inl e \<Rightarrow> (Inl e, n')
           | Inr True \<Rightarrow> (Inr [], n')
           | Inr False \<Rightarrow>
               (array_join [newline] (js_or (field data ''stack_frame_vars'') (JArr [])), n'))"

definition set_function_prototype :: "string \<Rightarrow> string \<Rightarrow> net \<Rightarrow> result" where
  "set_function_prototype name_or_address prototype n =
     (let ident = trim name_or_address;
          params0 = [(''prototype'', PStr prototype)];
          ps = (if startsWith (toLowerCase ident) ''0x'' \<or> digits_only ident
                then AList.update ''address'' (PStr ident) params0
                else AList.update ''name'' (PStr ident) params0);
          (data, n') = getJson ''setFunctionPrototype'' ps n
      in if \<not> truthy data then (Inr ''Error: no response'', n')
         else case has_key ''status'' data of
             Inl e \<Rightarrow> (Inl e, n')
           | Inr True \<Rightarrow>
               (Inr (''Applied prototype at '' @ tmpl (field data ''address'') @ '': ''
                     @ tmpl (field data ''applied_type'')), n')
           | Inr False \<Rightarrow>
               (case has_key ''error'' data of
                  Inl e \<Rightarrow> (Inl e, n')
                | Inr True \<Rightarrow> (Inr (''Error: '' @ tmpl (field data ''error'')), n')
                | Inr False \<Rightarrow> (Inr (JSON_stringify data), n')))"


subsection \<open>What \<^verbatim>\<open>JSON.parse\<close> accepts\<close>

text \<open>
  The batch rename calls \<^verbatim>\<open>JSON.parse\<close> only to learn whether it throws. The texts it
  accepts are those of the JSON grammar: one value between optional white space. The
  recogniser reads the text character by character and keeps the open brackets on a stack.
\<close>

datatype container = InArr | InObj

datatype jstate =
    Value
  | ArrayStart
  | ObjectStart
  | Key
  | Colon
  | AfterValue
  | InString bool
  | Escape bool
  | Hex nat bool
  | Literal string
  | Minus
  | Zero
  | IntDigits
  | FracStart
  | FracDigits
  | ExpStart
  | ExpSign
  | ExpDigits

definition json_ws :: "char \<Rightarrow> bool" where
  "json_ws c = (c \<in> {CHR 0x20, CHR 0x09, CHR 0x0A, CHR 0x0D})"

definition start_value :: "container list \<Rightarrow> char \<Rightarrow> (jstate \<times> container list) option" where
  "start_value stk c =
     (if c = CHR ''{'' then Some (ObjectStart, InObj # stk)
      else if c = CHR ''['' then Some (ArrayStart, InArr # stk)
      else if c = CHR 0x22 then Some (InString False, stk)
      else if c = CHR ''-'' then Some (Minus, stk)
      else if c = CHR ''0'' then Some (Zero, stk)
      else if is_digit c then Some (IntDigits, stk)
      else if c = CHR ''t'' then Some (Literal ''rue'', stk)
      else if c = CHR ''f'' then Some (Literal ''alse'', stk)
      else if c = CHR ''n'' then Some (Literal ''ull'', stk)
      else None)"

definition after_value :: "container list \<Rightarrow> char \<Rightarrow> (jstate \<times> container list) option" where
  "after_value stk c =
     (if json_ws c then Some (AfterValue, stk)
      else if c = CHR '','' then
        (case stk of [] \<Rightarrow> None | InArr # r \<Rightarrow> Some (Value, stk) | InObj # r \<Rightarrow> Some (Key, stk))
      else if c = CHR '']'' then
        (case stk of InArr # r \<Rightarrow> Some (AfterValue, r) | _ \<Rightarrow> None)
      else if c = CHR ''}'' then
        (case stk of InObj # r \<Rightarrow> Some (AfterValue, r) | _ \<Rightarrow> None)
      else None)"

definition is_hex :: "char \<Rightarrow> bool" where
  "is_hex c = (c \<in> set ''0123456789abcdefABCDEF'')"

fun step :: "jstate \<Rightarrow> container list \<Rightarrow> char \<Rightarrow> (jstate \<times> container list) option" where
  "step Value stk c = (if json_ws c then Some (Value, stk) else start_value stk c)"
| "step ArrayStart stk c =
     (if json_ws c then Some (ArrayStart, stk)
      else if c = CHR '']'' then Some (AfterValue, tl stk)
      else start_value stk c)"
| "step ObjectStart stk c =
     (if json_ws c then Some (ObjectStart, stk)
      else if c = CHR ''}'' then Some (AfterValue, tl stk)
      else if c = CHR 0x22 then Some (InString True, stk)
      else None)"
| "step Key stk c =
     (if json_ws c then Some (Key, stk)
      else if c = CHR 0x22 then Some (InString True, stk)
      else None)"
| "step Colon stk c =
     (if json_ws c then Some (Colon, stk)
      else if c = CHR '':'' then Some (Value, stk)
      else None)"
| "step AfterValue stk c = after_value stk c"
| "step (InString k) stk c =
     (if c = CHR 0x22 then Some (if k then Colon else AfterValue, stk)
      else if c = CHR 0x5C then Some (Escape k, stk)
      else if (of_char c :: nat) < 32 then None
      else Some (InString k, stk))"
| "step (Escape k) stk c =
     (if c \<in> {CHR 0x22, CHR 0x5C, CHR ''/'', CHR ''b'', CHR ''f'', CHR ''n'', CHR ''r'', CHR ''t''}
        then Some (InString k, stk)
      else if c = CHR ''u'' then Some (Hex 4 k, stk)
      else None)"
| "step (Hex m k) stk c =
     (if m = 0 then None
      else if is_hex c then (if m = 1 then Some (InString k, stk) else Some (Hex (m - 1) k, stk))
      else None)"
| "step (Literal w) stk c =
     (case w of
        [] \<Rightarrow> None
      | x # xs \<Rightarrow> if c \<noteq> x then None
                  else if xs = [] then Some (AfterValue, stk)
                  else Some (Literal xs, stk))"
| "step Minus stk c =
     (if c = CHR ''0'' then Some (Zero, stk)
      else if is_digit c then Some (IntDigits, stk)
      else None)"
| "step Zero stk c =
     (if c = CHR ''.'' then Some (FracStart, stk)
      else if c = CHR ''e'' \<or> c = CHR ''E'' then Some (ExpStart, stk)
      else after_value stk c)"
| "step IntDigits stk c =
     (if is_digit c then Some (IntDigits, stk)
      else if c = CHR ''.'' then Some (FracStart, stk)
      else if c = CHR ''e'' \<or> c = CHR ''E'' then Some (ExpStart, stk)
      else after_value stk c)"
| "step FracStart stk c = (if is_digit c then Some (FracDigits, stk) else None)"
| "step FracDigits stk c =
     (if is_digit c then Some (FracDigits, stk)
      else if c = CHR ''e'' \<or> c = CHR ''E'' then Some (ExpStart, stk)
      else after_value stk c)"
| "step ExpStart stk c =
     (if c = CHR ''+'' \<or> c = CHR ''-'' then Some (ExpSign, stk)
      else if is_digit c then Some (ExpDigits, stk)
      else None)"
| "step ExpSign stk c = (if is_digit c then Some (ExpDigits, stk) else None)"
| "step ExpDigits stk c = (if is_digit c then Some (ExpDigits, stk) else after_value stk c)"

definition final :: "jstate \<Rightarrow> bool" where
  "final st = (st \<in> {AfterValue, Zero, IntDigits, FracDigits, ExpDigits})"

fun run :: "jstate \<Rightarrow> container list \<Rightarrow> string \<Rightarrow> bool" where
  "run st stk [] = (final st \<and> stk = [])"
| "run st stk (c # cs) =
     (case step st stk c of None \<Rightarrow> False | Some (st', stk') \<Rightarrow> run st' stk' cs)"

definition JSON_parse_ok :: "string \<Rightarrow> bool" where
  \<comment> \<open>\<^verbatim>\<open>JSON.parse(s)\<close> returns rather than throws\<close>
  "JSON_parse_ok s = run Value [] s"


subsection \<open>Batch rename\<close>

definition given :: "string option \<Rightarrow> bool" where
  \<comment> \<open>an optional string argument is truthy: present and not empty\<close>
  "given a = (case a of None \<Rightarrow> False | Some s \<Rightarrow> s \<noteq> [])"

definition arg_str :: "string option \<Rightarrow> string" where
  "arg_str a = (case a of None \<Rightarrow> [] | Some s \<Rightarrow> s)"

definition rename_multi_variables ::
  "string \<Rightarrow> string option \<Rightarrow> string option \<Rightarrow> string option \<Rightarrow> net \<Rightarrow> result" where
  "rename_multi_variables function_identifier mapping_json pairs renames_json n =
     (let ident = trim function_identifier;
          params0 = (if startsWith (toLowerCase ident) ''0x'' \<or> digits_only ident
                     then AList.update ''address'' (PStr ident) []
                     else AList.update ''functionName'' (PStr ident) []);
          checked =
            (if given renames_json then
               (if JSON_parse_ok (arg_str renames_json)
                then Inr (AList.update ''renames'' (PStr (arg_str renames_json)) params0)
                else Inl ''Error: renames_json is not valid JSON'')
             else if given mapping_json then
               (if JSON_parse_ok (arg_str mapping_json)
                then Inr (AList.update ''mapping'' (PStr (arg_str mapping_json)) params0)
                else Inl ''Error: mapping_json is not valid JSON'')
             else if given pairs then
               Inr (AList.update ''pairs'' (PStr (arg_str pairs)) params0)
             else Inl ''Error: provide mapping_json, renames_json, or pairs'')
      in case checked of
           Inl text \<Rightarrow> (Inr text, n)
         | Inr ps \<Rightarrow>
             (let (data, n') = getJson ''renameVariables'' ps n
              in if \<not> truthy data then (Inr ''Error: no response'', n')
                 else case has_key ''error'' data of
                     Inl e \<Rightarrow> (Inl e, n')
                   | Inr True \<Rightarrow> (Inr (''Error: '' @ tmpl (field data ''error'')), n')
                   | Inr False \<Rightarrow>
                       (Inr (''Batch rename: '' @ tmpl (field data ''renamed'') @ ''/''
                             @ tmpl (field data ''total'') @ '' applied''), n')))"


subsection \<open>Aggregated strings listing\<close>

fun map_exn :: "('a \<Rightarrow> exn + 'b) \<Rightarrow> 'a list \<Rightarrow> exn + 'b list" where
  \<comment> \<open>a loop over a list whose body may throw: the first exception ends it\<close>
  "map_exn f [] = Inr []"
| "map_exn f (x # xs) =
     (case f x of
        Inl e \<Rightarrow> Inl e
      | Inr y \<Rightarrow> (case map_exn f xs of Inl e \<Rightarrow> Inl e | Inr ys \<Rightarrow> Inr (y # ys)))"

definition tab :: char where
  "tab = CHR 0x09"

definition string_line :: "json \<Rightarrow> string" where
  \<comment> \<open>one record: address, length, type and value, separated by tabs\<close>
  "string_line s =
     (let addr = js_or (field s ''address'') (JStr []);
          len = field s ''length'';
          stype = js_or (field s ''type'') (JStr []);
          val = js_or (field s ''value'') (JStr [])
      in to_str addr @ [tab] @ tmpl len @ [tab] @ to_str stype @ [tab] @ to_str val)"

definition format_string :: "json \<Rightarrow> exn + string" where
  \<comment> \<open>the body of the loop over the items of a page; reading a property of \<^verbatim>\<open>null\<close> throws\<close>
  "format_string s = (if s = JNull then Inl TypeError else Inr (string_line s))"

definition page_items :: "json \<Rightarrow> json list" where
  \<comment> \<open>\<^verbatim>\<open>Array.isArray(data.strings) ? data.strings : []\<close>\<close>
  "page_items data = (case field data ''strings'' of Some (JArr xs) \<Rightarrow> xs | _ \<Rightarrow> [])"

partial_function (option) list_all_strings_loop ::
  "int \<Rightarrow> int \<Rightarrow> string list \<Rightarrow> net \<Rightarrow> ((exn + string list) \<times> net) option" where
  "list_all_strings_loop batch_size offset results n =
     (case getJson ''strings'' [(''offset'', PNum offset), (''limit'', PNum batch_size)] n of
        (data, n') \<Rightarrow>
          (if \<not> truthy data then Some (Inr results, n')
           else (case has_key ''strings'' data of
              Inl e \<Rightarrow> Some (Inl e, n')
            | Inr present \<Rightarrow>
                (if \<not> present then Some (Inr results, n')
                 else if page_items data = [] then Some (Inr results, n')
                 else (case map_exn format_string (page_items data) of
                    Inl e \<Rightarrow> Some (Inl e, n')
                  | Inr lines \<Rightarrow>
                      (if int (length (page_items data)) < batch_size
                       then Some (Inr (results @ lines), n')
                       else list_all_strings_loop batch_size (offset + batch_size)
                              (results @ lines) n'))))))"

declare list_all_strings_loop.simps [code]

definition list_all_strings :: "int \<Rightarrow> net \<Rightarrow> result option" where
  \<comment> \<open>\<^term>\<open>None\<close>: the loop never ends\<close>
  "list_all_strings batch_size n =
     (case list_all_strings_loop batch_size 0 [] n of
        None \<Rightarrow> None
      | Some (Inl e, n') \<Rightarrow> Some (Inl e, n')
      | Some (Inr results, n') \<Rightarrow> Some (Inr (join [newline] results), n'))"


subsection \<open>Listing the binaries\<close>

definition format_binary :: "json \<Rightarrow> exn + string" where
  "format_binary it =
     (if it = JNull then Inl TypeError
      else (let vid = field it ''id'';
                view_id = field it ''view_id'';
                fn = field it ''filename'';
                basename = js_or (field it ''basename'') (JStr []);
                selectors = js_or (field it ''selectors'') (JArr []);
                active = field it ''active'';
                label = js_or (if truthy basename then Some basename else fn) (JStr ''(unknown)'');
                full = js_or fn (JStr ''(no filename)'')
            in case selectors of
                 JArr xs \<Rightarrow>
                   (let selectorText = join '', '' (map to_str xs);
                        mark = (if truthy_opt active then '' *active*'' else []);
                        viewPart = (if truthy_opt view_id then '' view='' @ tmpl view_id else [])
                    in Inr (tmpl vid @ ''. '' @ to_str label @ viewPart @ mark @ [newline]
                            @ ''    path: '' @ to_str full @ [newline]
                            @ ''    selectors: '' @ selectorText))
               | _ \<Rightarrow> Inl TypeError))"

definition list_binaries :: "net \<Rightarrow> result" where
  \<comment> \<open>the text of the error branch is the \<^verbatim>\<open>error\<close> value itself, shown here as a string\<close>
  "list_binaries n =
     (let (data, n') = getJson ''binaries'' [] n
      in if \<not> truthy data then (Inr ''Error: no response'', n')
         else case has_key ''error'' data of
             Inl e \<Rightarrow> (Inl e, n')
           | Inr True \<Rightarrow> (Inr (tmpl (field data ''error'')), n')
           | Inr False \<Rightarrow>
               (case js_or (field data ''binaries'') (JArr []) of
                  JArr its \<Rightarrow>
                    (case map_exn format_binary its of
                       Inl e \<Rightarrow> (Inl e, n')
                     | Inr lines \<Rightarrow> (Inr (join [newline] lines), n'))
                | _ \<Rightarrow> (Inl TypeError, n')))"


subsection \<open>Patching bytes\<close>

definition patch_bytes :: "string \<Rightarrow> string \<Rightarrow> bool \<Rightarrow> net \<Rightarrow> result" where
  "patch_bytes address data save_to_file n =
     (let (result, n') = getJson ''patch''
            [(''address'', PStr address), (''data'', PStr data),
             (''save_to_file'', PNum (if save_to_file then 1 else 0))] n
      in if \<not> truthy result then (Inr ''Error: no response'', n')
         else case has_key ''error'' result of
             Inl e \<Rightarrow> (Inl e, n')
           | Inr True \<Rightarrow> (Inr (''Error: '' @ tmpl (field result ''error'')), n')
           | Inr False \<Rightarrow>
               (let status = field result ''status''
                in if status = Some (JStr ''ok'') \<or> status = Some (JStr ''partial'') then
                     (let orig = js_or (field result ''original_bytes'') (JStr []);
                          patched = js_or (field result ''patched_bytes'') (JStr []);
                          written = js_or (field result ''bytes_written'') (JNum 0);
                          requested = js_or (field result ''bytes_requested'') (JNum 0);
                          saved = js_or (field result ''saved_to_file'') (JBool False);
                          savedPath = js_or (field result ''saved_path'') (JStr []);
                          warning = js_or (field result ''warning'') (JStr []);
                          msg0 = ''Patched '' @ to_str written @ ''/'' @ to_str requested
                                 @ '' bytes at '' @ address;
                          msg1 = (if status = Some (JStr ''partial'')
                                  then msg0 @ '' (PARTIAL WRITE)'' else msg0);
                          msg2 = (if truthy warning
                                  then msg1 @ [newline] @ ''Warning: '' @ to_str warning else msg1);
                          msg3 = (if truthy orig
                                  then msg2 @ [newline] @ ''Original: '' @ to_str orig else msg2);
                          msg4 = (if truthy patched
                                  then msg3 @ [newline] @ ''Patched:  '' @ to_str patched else msg3);
                          msg5 = (if truthy saved
                                  then msg4 @ [newline] @ ''Saved to file: '' @ to_str savedPath
                                  else msg4)
                      in (Inr msg5, n'))
                   else (Inr (JSON_stringify result), n')))"


section \<open>Start-up configuration\<close>

text \<open>
  \<^verbatim>\<open>parseInt(s, 10)\<close>: leading white space, an optional sign, then the longest run of
  decimal digits; \<^term>\<open>None\<close> is \<^verbatim>\<open>NaN\<close>. The port is a number, so it may be \<^verbatim>\<open>NaN\<close>.
\<close>

definition digit_val :: "char \<Rightarrow> nat" where
  "digit_val c = (of_char c :: nat) - 48"

definition parseInt :: "string \<Rightarrow> int option" where
  "parseInt s =
     (let s1 = dropWhile is_ws s;
          neg = (case s1 of [] \<Rightarrow> False | c # r \<Rightarrow> c = CHR ''-'');
          s2 = (case s1 of [] \<Rightarrow> [] | c # r \<Rightarrow> if c = CHR ''-'' \<or> c = CHR ''+'' then r else s1);
          ds = takeWhile is_digit s2
      in if ds = [] then None
         else Some ((if neg then - 1 else 1) * int (foldl (\<lambda>a c. 10 * a + digit_val c) 0 ds)))"

record config =
  host :: string
  port :: "int option"

datatype halt = ProcessExit int

fun parse_loop :: "string list \<Rightarrow> config \<Rightarrow> halt + config" where
  \<comment> \<open>the \<^verbatim>\<open>for\<close> loop over the arguments; \<^verbatim>\<open>args[++i]\<close> consumes the value\<close>
  "parse_loop [] cfg = Inr cfg"
| "parse_loop (arg # rest) cfg =
     (if arg = ''--host'' then
        (case rest of [] \<Rightarrow> parse_loop rest cfg
         | v # rest' \<Rightarrow> parse_loop rest' (cfg\<lparr>host := v\<rparr>))
      else if arg = ''--port'' then
        (case rest of [] \<Rightarrow> parse_loop rest cfg
         | v # rest' \<Rightarrow> parse_loop rest' (cfg\<lparr>port := parseInt v\<rparr>))
      else if arg = ''--help'' \<or> arg = ''-h'' then Inl (ProcessExit 0)
      else parse_loop rest cfg)"

definition parseArgs :: "string list \<Rightarrow> (string \<rightharpoonup> string) \<Rightarrow> halt + config" where
  "parseArgs argv env =
     (case parse_loop (drop 2 argv) \<lparr>host = ''localhost'', port = Some 9009\<rparr> of
        Inl h \<Rightarrow> Inl h
      | Inr cfg \<Rightarrow>
          (let cfg1 = (if given (env ''BINJA_MCP_HOST'')
                       then cfg\<lparr>host := arg_str (env ''BINJA_MCP_HOST'')\<rparr> else cfg);
               cfg2 = (if given (env ''BINJA_MCP_PORT'')
                       then cfg1\<lparr>port :=
                              (case parseInt (arg_str (env ''BINJA_MCP_PORT'')) of
                                 None \<Rightarrow> port cfg1
                               | Some v \<Rightarrow> if v \<noteq> 0 then Some v else port cfg1)\<rparr>
                       else cfg1)
           in Inr cfg2))"


section \<open>Sample remote services\<close>

text \<open>Concrete networks on which the theorems below are instantiated.\<close>

definition refused :: "'d reply" where
  \<comment> \<open>the request was sent and no response came\<close>
  "refused = NoResponse ''connect ECONNREFUSED 127.0.0.1:9009''"

definition scripted :: "json reply list \<Rightarrow> string reply list \<Rightarrow> net" where
  \<comment> \<open>the \<open>i\<close>-th request gets the \<open>i\<close>-th reply of the script, and none once the script is over\<close>
  "scripted js ts =
     \<lparr>json_replies = (\<lambda>i. if i < length js then js ! i else refused),
      text_replies = (\<lambda>i. if i < length ts then ts ! i else refused),
      sent = []\<rparr>"

definition offline :: net where
  "offline = scripted [] []"

definition ok :: "'d \<Rightarrow> 'd reply" where
  "ok d = Response 200 ''OK'' d"

definition str_item :: "string \<Rightarrow> string \<Rightarrow> json" where
  \<comment> \<open>an item of the strings endpoint\<close>
  "str_item addr val =
     JObj [(''address'', JStr addr), (''length'', JNum (int (length val))),
           (''type'', JStr ''ascii''), (''value'', JStr val)]"

definition page :: "json list \<Rightarrow> json reply" where
  "page items = ok (JObj [(''strings'', JArr items)])"

definition partial_patch :: net where
  \<comment> \<open>the service wrote two of four bytes and saved the patched file\<close>
  "partial_patch =
     scripted
       [ok (JObj [(''status'', JStr ''partial''), (''bytes_written'', JNum 2),
                  (''bytes_requested'', JNum 4), (''original_bytes'', JStr ''55 48''),
                  (''patched_bytes'', JStr ''90 90''), (''saved_to_file'', JBool True),
                  (''saved_path'', JStr ''/tmp/a.patched'')])] []"

definition four_pages :: net where
  \<comment> \<open>three pages of two strings, then a page of one\<close>
  "four_pages =
     scripted
       [page [str_item ''0x1000'' ''ab'', str_item ''0x1010'' ''cd''],
        page [str_item ''0x1020'' ''ef'', str_item ''0x1030'' ''gh''],
        page [str_item ''0x1040'' ''ij'', str_item ''0x1050'' ''kl''],
        page [str_item ''0x1060'' ''mn'']] []"


section \<open>Notions of the specification\<close>

text \<open>
  The classification rule in the specification's words: trim, then an address if the
  lower-cased string starts with \<^verbatim>\<open>0x\<close> or the string is made of decimal digits only,
  otherwise a name.
\<close>

datatype kind = Address | Name

definition classify :: "string \<Rightarrow> kind" where
  "classify s =
     (let t = trim s
      in if startsWith (toLowerCase t) ''0x'' \<or> digits_only t then Address else Name)"

fun query :: "call \<Rightarrow> params" where
  "query (GetText endpoint ps) = ps"
| "query (GetJson endpoint ps) = ps"

definition carries :: "string \<Rightarrow> string \<Rightarrow> call \<Rightarrow> bool" where
  \<comment> \<open>the request has the query parameter \<open>k=v\<close>\<close>
  "carries k v c = ((k, PStr v) \<in> set (query c))"

definition first_line :: "string \<Rightarrow> string" where
  \<comment> \<open>the portion of a text before its first newline character\<close>
  "first_line s = takeWhile (\<lambda>c. c \<noteq> newline) s"

definition chosen :: "string option \<Rightarrow> string option \<Rightarrow> string option \<Rightarrow> (string \<times> string) option" where
  \<comment> \<open>of the three encodings of a rename set (mapping, pairs, renames), the one in use:
      the first that is not empty, renames before mapping before pairs\<close>
  "chosen mapping_json pairs renames_json =
     (if given renames_json then Some (''renames'', arg_str renames_json)
      else if given mapping_json then Some (''mapping'', arg_str mapping_json)
      else if given pairs then Some (''pairs'', arg_str pairs)
      else None)"

definition has_error_field :: "json \<Rightarrow> bool" where
  \<comment> \<open>the value is an object that carries an \<^verbatim>\<open>error\<close> field\<close>
  "has_error_field data = (case data of JObj kvs \<Rightarrow> map_of kvs ''error'' \<noteq> None | _ \<Rightarrow> False)"

definition payload_includes :: "result \<Rightarrow> string \<Rightarrow> bool" where
  \<comment> \<open>the handler returned a text payload that contains the substring\<close>
  "payload_includes r sub = (case fst r of Inl e \<Rightarrow> False | Inr text \<Rightarrow> includes_str text sub)"

definition strings_request :: "int \<Rightarrow> int \<Rightarrow> call" where
  \<comment> \<open>the fetch of one page of the strings endpoint\<close>
  "strings_request offset limit =
     GetJson ''strings'' [(''offset'', PNum offset), (''limit'', PNum limit)]"

definition no_strings_array :: "json \<Rightarrow> bool" where
  \<comment> \<open>the response has no \<^verbatim>\<open>strings\<close> field that is an array\<close>
  "no_strings_array data = (case field data ''strings'' of Some (JArr xs) \<Rightarrow> False | _ \<Rightarrow> True)"

definition is_page :: "json reply \<Rightarrow> json list \<Rightarrow> bool" where
  \<comment> \<open>a successful reply of the strings endpoint with these items\<close>
  "is_page r items =
     (case r of
        Response status statusText data \<Rightarrow>
          200 \<le> status \<and> status < 300 \<and>
          (case data of JObj kvs \<Rightarrow> map_of kvs ''strings'' = Some (JArr items) | _ \<Rightarrow> False)
      | NoResponse msg \<Rightarrow> False)"

definition hint :: string where
  \<comment> \<open>the message for a request that got no response\<close>
  "hint = ''No response from server - is Binary Ninja running with the MCP plugin?''"

definition text_endpoints :: "string list" where
  \<comment> \<open>the endpoints that the handlers of the source pass to \<^verbatim>\<open>getText\<close> and \<^verbatim>\<open>getLines\<close>\<close>
  "text_endpoints =
     [''methods'', ''searchFunctions'', ''comment'', ''comment/function'', ''localTypes'',
      ''searchTypes'', ''getUserDefinedType'', ''data'', ''hexdump'', ''hexdumpByName'',
      ''getXrefsTo'', ''getXrefsToField'', ''getXrefsToStruct'', ''getXrefsToType'',
      ''getXrefsToEnum'', ''getXrefsToUnion'', ''functionAt'', ''classes'', ''namespaces'',
      ''segments'', ''imports'', ''exports'', ''strings'', ''strings/filter'', ''status'',
      ''formatValue'']"


section \<open>Facts about the string operations\<close>

lemma startsWith_append: "startsWith s p \<longleftrightarrow> (\<exists>r. s = p @ r)"
  unfolding startsWith_def
  by (metis append_eq_conv_conj append_take_drop_id)

lemma startsWith_lower_0x:
  assumes "startsWith t ''0x''"
  shows "startsWith (toLowerCase t) ''0x''"
proof -
  from assms obtain r where "t = ''0x'' @ r"
    by (auto simp: startsWith_append)
  then show ?thesis
    by (simp add: startsWith_def toLowerCase_def toLowerCase_char_def)
qed

lemma includes_str_iff: "includes_str s sub \<longleftrightarrow> (\<exists>a b. s = a @ sub @ b)"
proof (induction s)
  case Nil
  then show ?case by auto
next
  case (Cons c cs)
  show ?case
  proof
    assume "includes_str (c # cs) sub"
    then consider "startsWith (c # cs) sub" | "includes_str cs sub" by auto
    then show "\<exists>a b. c # cs = a @ sub @ b"
    proof cases
      case 1
      then obtain r where "c # cs = sub @ r" by (auto simp: startsWith_append)
      then have "c # cs = [] @ sub @ r" by simp
      then show ?thesis by blast
    next
      case 2
      with Cons.IH obtain a b where "cs = a @ sub @ b" by blast
      then have "c # cs = (c # a) @ sub @ b" by simp
      then show ?thesis by blast
    qed
  next
    assume "\<exists>a b. c # cs = a @ sub @ b"
    then obtain a b where ab: "c # cs = a @ sub @ b" by blast
    show "includes_str (c # cs) sub"
    proof (cases a)
      case Nil
      with ab have "startsWith (c # cs) sub" by (auto simp: startsWith_append)
      then show ?thesis by simp
    next
      case (Cons x xs)
      with ab have "cs = xs @ sub @ b" by simp
      with Cons.IH have "includes_str cs sub" by blast
      then show ?thesis by simp
    qed
  qed
qed

lemma includes_str_mid: "includes_str (a @ sub @ b) sub"
  by (auto simp: includes_str_iff)

lemma includes_str_append: "includes_str s sub \<Longrightarrow> includes_str (s @ t) sub"
  by (metis append.assoc includes_str_iff)

lemma includes_str_prepend: "includes_str s sub \<Longrightarrow> includes_str (t @ s) sub"
  by (metis append.assoc includes_str_iff)

lemma split_nl_nonempty: "split_nl s \<noteq> []"
  by (induction s) (auto split: list.splits)

lemma hd_split_nl: "hd (split_nl s) = first_line s"
  by (induction s) (auto simp: first_line_def split_nl_nonempty split: list.splits)

lemma split_nl_single: "newline \<notin> set s \<Longrightarrow> split_nl s = [s]"
  by (induction s) auto

lemma split_nl_length: "length (split_nl s) = Suc (length (filter (\<lambda>c. c = newline) s))"
  by (induction s) (auto split: list.splits)


section \<open>The requests a handler sends\<close>

lemma sent_getJson: "sent (snd (getJson ep ps n)) = sent n @ [GetJson ep ps]"
  by (simp add: getJson_def)

lemma sent_getText: "sent (snd (getText ep ps n)) = sent n @ [GetText ep ps]"
  by (simp add: getText_def)

lemma sent_getActiveFilename:
  "sent (snd (getActiveFilename n)) = sent n @ [GetJson ''status'' []]"
  by (simp add: getActiveFilename_def getJson_def)

text \<open>
  Four handlers send the identifier under the key that the classification rule gives:
  \<^verbatim>\<open>get_il\<close>, \<^verbatim>\<open>get_stack_frame_vars\<close>, \<^verbatim>\<open>set_function_prototype\<close> and (further below)
  \<^verbatim>\<open>rename_multi_variables\<close>.
\<close>

lemma get_il_request:
  "sent (snd (get_il s view ssa n)) =
     sent n @ [GetJson ''status'' [],
       GetJson ''il'' [(''view'', PStr (view_name view)), (''ssa'', PNum (if ssa then 1 else 0)),
                      (if classify s = Address then ''address'' else ''name'', PStr (trim s))]]"
  by (simp add: get_il_def getActiveFilename_def getJson_def classify_def Let_def
           split: sum.splits bool.splits)

lemma get_stack_frame_vars_request:
  "sent (snd (get_stack_frame_vars s n)) =
     sent n @ [GetJson ''getStackFrameVars''
                 [(if classify s = Address then ''address'' else ''name'', PStr (trim s))]]"
  by (simp add: get_stack_frame_vars_def getJson_def classify_def Let_def
           split: sum.splits bool.splits)

lemma set_function_prototype_request:
  "sent (snd (set_function_prototype s proto n)) =
     sent n @ [GetJson ''setFunctionPrototype''
                 [(''prototype'', PStr proto),
                  (if classify s = Address then ''address'' else ''name'', PStr (trim s))]]"
  by (simp add: set_function_prototype_def getJson_def classify_def Let_def
           split: sum.splits bool.splits)

text \<open>
  The two data handlers test \<^verbatim>\<open>ident.startsWith("0x")\<close> only: no lower-casing and no
  test for decimal digits.
\<close>

lemma hexdump_data_request:
  "sent (snd (hexdump_data s len n)) =
     sent n @ [GetText (if startsWith (trim s) ''0x'' then ''hexdump'' else ''hexdumpByName'')
                 ((if startsWith (trim s) ''0x'' then ''address'' else ''name'', PStr (trim s))
                  # (if len \<noteq> - 1 then [(''length'', PNum len)] else []))]"
  by (simp add: hexdump_data_def getText_def Let_def)

lemma get_data_decl_request:
  "sent (snd (get_data_decl s len n)) =
     sent n @ [GetJson ''getDataDecl''
                 ((if startsWith (trim s) ''0x'' then ''address'' else ''name'', PStr (trim s))
                  # (if len \<noteq> - 1 then [(''length'', PNum len)] else []))]"
  by (simp add: get_data_decl_def getJson_def Let_def split: sum.splits bool.splits)

lemma startsWith_0x_is_Address: "startsWith (trim s) ''0x'' \<Longrightarrow> classify s = Address"
  by (simp add: classify_def Let_def startsWith_lower_0x)

text \<open>
  So the data handlers agree with the rule except on the identifiers that start with
  \<^verbatim>\<open>0X\<close> or consist of decimal digits only.
\<close>

lemma toLowerCase_char_x: "toLowerCase_char c = CHR ''x'' \<longleftrightarrow> c = CHR ''x'' \<or> c = CHR ''X''"
  by (cases c) (auto simp add: toLowerCase_char_def Let_def)

lemma toLowerCase_char_0: "toLowerCase_char c = CHR ''0'' \<longleftrightarrow> c = CHR ''0''"
  by (cases c) (auto simp add: toLowerCase_char_def Let_def)

lemma startsWith_lower_0x_iff:
  "startsWith (toLowerCase t) ''0x'' \<longleftrightarrow> startsWith t ''0x'' \<or> startsWith t ''0X''"
proof (cases t)
  case Nil
  then show ?thesis by (simp add: startsWith_def toLowerCase_def)
next
  case (Cons a r)
  show ?thesis
  proof (cases r)
    case Nil
    with Cons show ?thesis by (simp add: startsWith_def toLowerCase_def)
  next
    case (Cons b r')
    with \<open>t = a # r\<close> show ?thesis
      by (auto simp: startsWith_def toLowerCase_def toLowerCase_char_x toLowerCase_char_0)
  qed
qed

lemma data_sites_agree_iff:
  "(startsWith (trim s) ''0x'' \<longleftrightarrow> classify s = Address) \<longleftrightarrow>
   \<not> (startsWith (trim s) ''0X'' \<or> digits_only (trim s))"
proof -
  have "\<not> (digits_only t \<and> startsWith t ''0x'')" for t
    by (cases t; cases "tl t") (auto simp: digits_only_def startsWith_def is_digit_def)
  moreover have "\<not> (startsWith t ''0X'' \<and> startsWith t ''0x'')" for t
    by (auto simp: startsWith_def)
  ultimately show ?thesis
    unfolding classify_def Let_def startsWith_lower_0x_iff by auto
qed


section \<open>Identifier classification across the call sites\<close>

text \<open>
  Claim C1: every operation that accepts a name-or-address identifier classifies it by the
  one shared rule, with identical results at each call site (\<^verbatim>\<open>get_il\<close>,
  \<^verbatim>\<open>rename_multi_variables\<close>, \<^verbatim>\<open>get_stack_frame_vars\<close>, \<^verbatim>\<open>set_function_prototype\<close>,
  \<^verbatim>\<open>hexdump_data\<close>, \<^verbatim>\<open>get_data_decl\<close>).
  The code at the identifiers \<^verbatim>\<open>0X401000\<close> and \<^verbatim>\<open>401000\<close>: the rule makes both an address,
  and \<^verbatim>\<open>get_il\<close> sends them as \<^verbatim>\<open>address\<close>, but \<^verbatim>\<open>hexdump_data\<close> and \<^verbatim>\<open>get_data_decl\<close> send
  them as \<^verbatim>\<open>name\<close>.
\<close>

theorem identifier_classification_diverges:
  "classify ''0X401000'' = Address
   \<and> classify ''401000'' = Address
   \<and> sent (snd (get_il ''0X401000'' Hlil False offline)) =
       [GetJson ''status'' [],
        GetJson ''il'' [(''view'', PStr ''hlil''), (''ssa'', PNum 0), (''address'', PStr ''0X401000'')]]
   \<and> sent (snd (get_il ''401000'' Hlil False offline)) =
       [GetJson ''status'' [],
        GetJson ''il'' [(''view'', PStr ''hlil''), (''ssa'', PNum 0), (''address'', PStr ''401000'')]]
   \<and> sent (snd (hexdump_data ''0X401000'' (- 1) offline)) =
       [GetText ''hexdumpByName'' [(''name'', PStr ''0X401000'')]]
   \<and> sent (snd (hexdump_data ''401000'' (- 1) offline)) =
       [GetText ''hexdumpByName'' [(''name'', PStr ''401000'')]]
   \<and> sent (snd (get_data_decl ''0X401000'' (- 1) offline)) =
       [GetJson ''getDataDecl'' [(''name'', PStr ''0X401000'')]]
   \<and> sent (snd (get_data_decl ''401000'' (- 1) offline)) =
       [GetJson ''getDataDecl'' [(''name'', PStr ''401000'')]]"
  by code_simp


section \<open>Precedence of the start-up configuration\<close>

text \<open>
  The defaults, the command line over the defaults, and the environment over the defaults.
\<close>

lemma parseArgs_command_line_over_defaults:
  "parseArgs [''node'', ''index.js'', ''--host'', ''10.0.0.5'', ''--port'', ''9100''] Map.empty
   = Inr \<lparr>host = ''10.0.0.5'', port = Some 9100\<rparr>"
  by code_simp

lemma parseArgs_environment_over_defaults:
  "parseArgs [''node'', ''index.js'']
     [''BINJA_MCP_HOST'' \<mapsto> ''127.0.0.1'', ''BINJA_MCP_PORT'' \<mapsto> ''9100'']
   = Inr \<lparr>host = ''127.0.0.1'', port = Some 9100\<rparr>"
  by code_simp

lemma parseArgs_defaults:
  "parseArgs [''node'', ''index.js''] Map.empty = Inr \<lparr>host = ''localhost'', port = Some 9009\<rparr>"
  by code_simp

lemma parseArgs_env_host:
  "parseArgs argv env = Inr cfg \<Longrightarrow> given (env ''BINJA_MCP_HOST'') \<Longrightarrow>
   host cfg = arg_str (env ''BINJA_MCP_HOST'')"
  by (auto simp: parseArgs_def Let_def split: sum.splits if_splits)

text \<open>
  Claim C2: when host or port is given both on the command line and in the environment,
  the command-line value is the one used; the environment overrides the defaults only.
  The code at \<^verbatim>\<open>--host 10.0.0.5 --port 9100\<close> with \<^verbatim>\<open>BINJA_MCP_HOST=127.0.0.1\<close> and
  \<^verbatim>\<open>BINJA_MCP_PORT=9009\<close>: the environment's values are returned.
\<close>

theorem parseArgs_environment_overrides_command_line:
  "parseArgs [''node'', ''index.js'', ''--host'', ''10.0.0.5'', ''--port'', ''9100'']
     [''BINJA_MCP_HOST'' \<mapsto> ''127.0.0.1'', ''BINJA_MCP_PORT'' \<mapsto> ''9009'']
   = Inr \<lparr>host = ''127.0.0.1'', port = Some 9009\<rparr>"
  by code_simp


section \<open>The request of the disassembly fetch\<close>

text \<open>
  Claim C3, as stated: the identifier \<^verbatim>\<open>0x401000\<close> results in a request carrying
  \<^verbatim>\<open>address=0x401000\<close> and not \<^verbatim>\<open>name=0x401000\<close>. It does not: the request carries
  \<^verbatim>\<open>name=0x401000\<close> and no \<^verbatim>\<open>address\<close> parameter.
\<close>

theorem fetch_disassembly_hex_counterexample:
  "sent (snd (fetch_disassembly ''0x401000'' offline)) =
     [GetJson ''status'' [], GetJson ''assembly'' [(''name'', PStr ''0x401000'')]]
   \<and> \<not> list_ex (carries ''address'' ''0x401000'') (sent (snd (fetch_disassembly ''0x401000'' offline)))
   \<and> list_ex (carries ''name'' ''0x401000'') (sent (snd (fetch_disassembly ''0x401000'' offline)))"
  by code_simp

text \<open>
  Claim C3, amended: the disassembly fetch does not classify its identifier. After the
  status query it sends one request to \<^verbatim>\<open>assembly\<close> whose only query parameter is \<^verbatim>\<open>name\<close>,
  holding the identifier unchanged: \<^verbatim>\<open>name=0x401000\<close> for \<^verbatim>\<open>0x401000\<close>, \<^verbatim>\<open>name=main\<close> for
  \<^verbatim>\<open>main\<close>.
\<close>

theorem fetch_disassembly_sends_name:
  "sent (snd (fetch_disassembly name n)) =
     sent n @ [GetJson ''status'' [], GetJson ''assembly'' [(''name'', PStr name)]]"
  by (simp add: fetch_disassembly_def getActiveFilename_def getJson_def Let_def
           split: sum.splits bool.splits)

theorem fetch_disassembly_sends_name_witness:
  "sent (snd (fetch_disassembly ''main'' offline)) =
     [GetJson ''status'' [], GetJson ''assembly'' [(''name'', PStr ''main'')]]"
  using fetch_disassembly_sends_name [of "''main''" offline]
  by (simp add: offline_def scripted_def)


section \<open>Batch rename: validation and forwarding\<close>

lemma has_key_absent: "map_of kvs k = None \<Longrightarrow> has_key k (JObj kvs) = Inr False"
  by (simp add: map_of_eq_None_iff)

lemma has_key_present: "map_of kvs k = Some v \<Longrightarrow> has_key k (JObj kvs) = Inr True"
  by (simp add: weak_map_of_SomeI image_iff) (metis fst_conv map_of_SomeD)

lemma json_result_ok:
  "200 \<le> status \<Longrightarrow> status < 300 \<Longrightarrow> json_result (Response status st data) = data"
  by (simp add: json_result_def client_get_def validateStatus_def getJson_body_def)

lemma rename_multi_variables_none:
  "chosen m p r = None \<Longrightarrow>
   rename_multi_variables fi m p r n = (Inr ''Error: provide mapping_json, renames_json, or pairs'', n)"
  by (simp add: rename_multi_variables_def chosen_def Let_def split: if_splits)

lemma rename_multi_variables_bad_renames:
  "chosen m p r = Some (''renames'', v) \<Longrightarrow> \<not> JSON_parse_ok v \<Longrightarrow>
   rename_multi_variables fi m p r n = (Inr ''Error: renames_json is not valid JSON'', n)"
  by (simp add: rename_multi_variables_def chosen_def Let_def split: if_splits)

lemma rename_multi_variables_bad_mapping:
  "chosen m p r = Some (''mapping'', v) \<Longrightarrow> \<not> JSON_parse_ok v \<Longrightarrow>
   rename_multi_variables fi m p r n = (Inr ''Error: mapping_json is not valid JSON'', n)"
  by (simp add: rename_multi_variables_def chosen_def Let_def split: if_splits)

lemma rename_multi_variables_forward:
  assumes "chosen m p r = Some (k, v)" and "k = ''pairs'' \<or> JSON_parse_ok v"
  shows "rename_multi_variables fi m p r n =
     (let data = json_result (json_replies n (length (sent n)));
          n' = n\<lparr>sent := sent n @ [GetJson ''renameVariables''
                  [(if classify fi = Address then ''address'' else ''functionName'', PStr (trim fi)),
                   (k, PStr v)]]\<rparr>
      in if \<not> truthy data then (Inr ''Error: no response'', n')
         else case has_key ''error'' data of
             Inl e \<Rightarrow> (Inl e, n')
           | Inr True \<Rightarrow> (Inr (''Error: '' @ tmpl (field data ''error'')), n')
           | Inr False \<Rightarrow>
               (Inr (''Batch rename: '' @ tmpl (field data ''renamed'') @ ''/''
                     @ tmpl (field data ''total'') @ '' applied''), n'))"
proof -
  consider (renames) "given r" "k = ''renames''" "v = arg_str r"
    | (mapping) "\<not> given r" "given m" "k = ''mapping''" "v = arg_str m"
    | (pairs) "\<not> given r" "\<not> given m" "given p" "k = ''pairs''" "v = arg_str p"
    using assms(1) by (auto simp: chosen_def split: if_splits)
  then show ?thesis
  proof cases
    case renames
    with assms(2) show ?thesis
      by (simp add: rename_multi_variables_def Let_def getJson_def classify_def
            split: sum.splits bool.splits)
  next
    case mapping
    with assms(2) show ?thesis
      by (simp add: rename_multi_variables_def Let_def getJson_def classify_def
            split: sum.splits bool.splits)
  next
    case pairs
    then show ?thesis
      by (simp add: rename_multi_variables_def Let_def getJson_def classify_def
            split: sum.splits bool.splits)
  qed
qed

lemma rename_multi_variables_request:
  assumes "chosen m p r = Some (k, v)" and "k = ''pairs'' \<or> JSON_parse_ok v"
  shows "sent (snd (rename_multi_variables fi m p r n)) =
     sent n @ [GetJson ''renameVariables''
                 [(if classify fi = Address then ''address'' else ''functionName'', PStr (trim fi)),
                  (k, PStr v)]]"
  by (simp add: rename_multi_variables_forward [OF assms] Let_def split: sum.splits bool.splits)

lemma rename_multi_variables_counts:
  assumes "chosen m p r = Some (k, v)" and "k = ''pairs'' \<or> JSON_parse_ok v"
    and "json_replies n (length (sent n)) = Response status st (JObj kvs)"
    and "200 \<le> status" and "status < 300"
    and "map_of kvs ''error'' = None"
    and "map_of kvs ''renamed'' = Some (JNum a)" and "map_of kvs ''total'' = Some (JNum b)"
  shows "fst (rename_multi_variables fi m p r n) =
           Inr (''Batch rename: '' @ num_str a @ ''/'' @ num_str b @ '' applied'')"
proof -
  from assms(6) have "has_key ''error'' (JObj kvs) = Inr False"
    by (simp add: map_of_eq_None_iff)
  with assms(3-) show ?thesis
    by (simp add: rename_multi_variables_forward [OF assms(1,2)] Let_def json_result_ok
          tmpl_def del: has_key.simps)
qed

text \<open>
  Claim C4, as stated: if \<^verbatim>\<open>renames_json\<close> or \<^verbatim>\<open>mapping_json\<close> is supplied but is not valid
  JSON, the handler returns a validation error naming that input and performs no network
  call. It does not when an earlier alternative is in use: with \<^verbatim>\<open>renames_json = []\<close> and the
  malformed \<^verbatim>\<open>mapping_json = {\<close>, the request is forwarded with \<^verbatim>\<open>renames\<close> and the payload
  reports the counts. Nor does an empty \<^verbatim>\<open>renames_json\<close>, which is not valid JSON, get an
  error that names it: it counts as not supplied.
\<close>

theorem rename_multi_variables_both_supplied_counterexample:
  "given (Some ''{'') \<and> \<not> JSON_parse_ok ''{'' \<and> given (Some ''[]'') \<and> JSON_parse_ok ''[]''
   \<and> fst (rename_multi_variables ''main'' (Some ''{'') None (Some ''[]'')
         (scripted [ok (JObj [(''renamed'', JNum 1), (''total'', JNum 1)])] []))
       = Inr ''Batch rename: 1/1 applied''
   \<and> sent (snd (rename_multi_variables ''main'' (Some ''{'') None (Some ''[]'')
         (scripted [ok (JObj [(''renamed'', JNum 1), (''total'', JNum 1)])] [])))
       = [GetJson ''renameVariables'' [(''functionName'', PStr ''main''), (''renames'', PStr ''[]'')]]
   \<and> \<not> JSON_parse_ok []
   \<and> fst (rename_multi_variables ''main'' None None (Some []) offline)
       = Inr ''Error: provide mapping_json, renames_json, or pairs''"
  by code_simp

text \<open>
  Claim C4, amended: the batch rename uses the first of \<^verbatim>\<open>renames_json\<close>, \<^verbatim>\<open>mapping_json\<close>,
  \<^verbatim>\<open>pairs\<close> (in this order) that is supplied and not empty, and ignores the others without
  validating them. If there is none, it returns a validation error and performs no network
  call. If the one in use is \<^verbatim>\<open>renames_json\<close> or \<^verbatim>\<open>mapping_json\<close> and is not valid JSON, it
  returns a validation error naming that input and performs no network call. Otherwise it
  forwards exactly one request carrying it, and on a success reply the payload reports the
  renamed and total counts of the reply.
\<close>

theorem rename_multi_variables_validation:
  "(chosen m p r = None \<longrightarrow>
      rename_multi_variables fi m p r n =
        (Inr ''Error: provide mapping_json, renames_json, or pairs'', n))
   \<and> (chosen m p r = Some (''renames'', v) \<and> \<not> JSON_parse_ok v \<longrightarrow>
      rename_multi_variables fi m p r n = (Inr ''Error: renames_json is not valid JSON'', n))
   \<and> (chosen m p r = Some (''mapping'', v) \<and> \<not> JSON_parse_ok v \<longrightarrow>
      rename_multi_variables fi m p r n = (Inr ''Error: mapping_json is not valid JSON'', n))
   \<and> (chosen m p r = Some (k, v) \<and> (k = ''pairs'' \<or> JSON_parse_ok v) \<longrightarrow>
      sent (snd (rename_multi_variables fi m p r n)) =
        sent n @ [GetJson ''renameVariables''
                    [(if classify fi = Address then ''address'' else ''functionName'', PStr (trim fi)),
                     (k, PStr v)]]
      \<and> (json_replies n (length (sent n)) = Response status st (JObj kvs)
           \<and> 200 \<le> status \<and> status < 300 \<and> map_of kvs ''error'' = None
           \<and> map_of kvs ''renamed'' = Some (JNum a) \<and> map_of kvs ''total'' = Some (JNum b) \<longrightarrow>
         fst (rename_multi_variables fi m p r n) =
           Inr (''Batch rename: '' @ num_str a @ ''/'' @ num_str b @ '' applied'')))"
proof (intro conjI impI)
  assume "chosen m p r = None"
  then show "rename_multi_variables fi m p r n =
      (Inr ''Error: provide mapping_json, renames_json, or pairs'', n)"
    by (rule rename_multi_variables_none)
next
  assume "chosen m p r = Some (''renames'', v) \<and> \<not> JSON_parse_ok v"
  then show "rename_multi_variables fi m p r n = (Inr ''Error: renames_json is not valid JSON'', n)"
    by (simp add: rename_multi_variables_bad_renames)
next
  assume "chosen m p r = Some (''mapping'', v) \<and> \<not> JSON_parse_ok v"
  then show "rename_multi_variables fi m p r n = (Inr ''Error: mapping_json is not valid JSON'', n)"
    by (simp add: rename_multi_variables_bad_mapping)
next
  assume c: "chosen m p r = Some (k, v) \<and> (k = ''pairs'' \<or> JSON_parse_ok v)"
  then show "sent (snd (rename_multi_variables fi m p r n)) =
      sent n @ [GetJson ''renameVariables''
                  [(if classify fi = Address then ''address'' else ''functionName'', PStr (trim fi)),
                   (k, PStr v)]]"
    by (simp add: rename_multi_variables_request)
  assume "json_replies n (length (sent n)) = Response status st (JObj kvs)
           \<and> 200 \<le> status \<and> status < 300 \<and> map_of kvs ''error'' = None
           \<and> map_of kvs ''renamed'' = Some (JNum a) \<and> map_of kvs ''total'' = Some (JNum b)"
  with c show "fst (rename_multi_variables fi m p r n) =
           Inr (''Batch rename: '' @ num_str a @ ''/'' @ num_str b @ '' applied'')"
    by (intro rename_multi_variables_counts [where k = k and v = v and kvs = kvs]) auto
qed


theorem rename_multi_variables_validation_witness:
  "rename_multi_variables ''main'' None None None offline =
     (Inr ''Error: provide mapping_json, renames_json, or pairs'', offline)
   \<and> rename_multi_variables ''main'' None None (Some ''{'') offline =
     (Inr ''Error: renames_json is not valid JSON'', offline)
   \<and> rename_multi_variables ''main'' (Some ''{'') (Some ''a:b'') None offline =
     (Inr ''Error: mapping_json is not valid JSON'', offline)
   \<and> sent (snd (rename_multi_variables '' 0x401000 '' (Some ''{}'') None None
         (scripted [ok (JObj [(''renamed'', JNum 2), (''total'', JNum 3)])] []))) =
       [GetJson ''renameVariables'' [(''address'', PStr ''0x401000''), (''mapping'', PStr ''{}'')]]
   \<and> fst (rename_multi_variables '' 0x401000 '' (Some ''{}'') None None
         (scripted [ok (JObj [(''renamed'', JNum 2), (''total'', JNum 3)])] [])) =
       Inr ''Batch rename: 2/3 applied''"
proof -
  have valid: "JSON_parse_ok ''{}''" and invalid: "\<not> JSON_parse_ok ''{''"
    by code_simp+
  have num: "num_str 2 = ''2''" "num_str 3 = ''3''"
    by code_simp+
  have addr: "classify '' 0x401000 '' = Address" and tr: "trim '' 0x401000 '' = ''0x401000''"
    by code_simp+
  note t1 = rename_multi_variables_validation
      [where m = None and p = None and r = None and fi = "''main''" and n = offline,
       THEN conjunct1]
  note t2 = rename_multi_variables_validation
      [where m = None and p = None and r = "Some ''{''" and v = "''{''" and fi = "''main''"
         and n = offline, THEN conjunct2, THEN conjunct1]
  note t3 = rename_multi_variables_validation
      [where m = "Some ''{''" and p = "Some ''a:b''" and r = None and v = "''{''"
         and fi = "''main''" and n = offline, THEN conjunct2, THEN conjunct2, THEN conjunct1]
  note t4 = rename_multi_variables_validation
      [where m = "Some ''{}''" and p = None and r = None and v = "''{}''" and k = "''mapping''"
         and fi = "'' 0x401000 ''"
         and n = "scripted [ok (JObj [(''renamed'', JNum 2), (''total'', JNum 3)])] []"
         and status = 200 and st = "''OK''"
         and kvs = "[(''renamed'', JNum 2), (''total'', JNum 3)]" and a = 2 and b = 3,
       THEN conjunct2, THEN conjunct2, THEN conjunct2]
  show ?thesis
    using t1 t2 t3 t4 valid invalid
    by (simp add: chosen_def given_def arg_str_def num addr tr scripted_def ok_def)
qed


section \<open>Aggregation over the pages of the strings endpoint\<close>

lemma map_exn_format_string:
  "JNull \<notin> set items \<Longrightarrow> map_exn format_string items = Inr (map string_line items)"
  by (induction items) (auto simp: format_string_def)

lemma is_page_result:
  assumes "is_page r items"
  shows "truthy (json_result r)" and "has_key ''strings'' (json_result r) = Inr True"
    and "page_items (json_result r) = items"
proof -
  from assms obtain status st kvs where r: "r = Response status st (JObj kvs)"
    and ok: "200 \<le> status" "status < 300" and kv: "map_of kvs ''strings'' = Some (JArr items)"
    by (auto simp: is_page_def split: reply.splits json.splits)
  from r ok have d: "json_result r = JObj kvs"
    by (simp add: json_result_ok)
  show "truthy (json_result r)" by (simp add: d)
  show "has_key ''strings'' (json_result r) = Inr True"
    unfolding d using kv by (rule has_key_present)
  show "page_items (json_result r) = items"
    by (simp add: d page_items_def kv)
qed

lemma loop_short_page:
  assumes "is_page (json_replies n (length (sent n))) items"
    and "JNull \<notin> set items" and "int (length items) < b"
  shows "list_all_strings_loop b off res n =
           Some (Inr (res @ map string_line items), n\<lparr>sent := sent n @ [strings_request off b]\<rparr>)"
  apply (subst list_all_strings_loop.simps)
  using assms(3)
  apply (simp add: getJson_def is_page_result [OF assms(1)] map_exn_format_string [OF assms(2)]
      strings_request_def del: has_key.simps)
  done

lemma loop_full_page:
  assumes "is_page (json_replies n (length (sent n))) items"
    and "JNull \<notin> set items" and "items \<noteq> []" and "\<not> int (length items) < b"
  shows "list_all_strings_loop b off res n =
           list_all_strings_loop b (off + b) (res @ map string_line items)
             (n\<lparr>sent := sent n @ [strings_request off b]\<rparr>)"
  apply (subst list_all_strings_loop.simps)
  using assms(3,4)
  apply (simp add: getJson_def is_page_result [OF assms(1)] map_exn_format_string [OF assms(2)]
      strings_request_def del: has_key.simps)
  done

lemma no_strings_array_items: "no_strings_array data \<Longrightarrow> page_items data = []"
  by (auto simp: no_strings_array_def page_items_def split: option.splits json.splits)

lemma has_key_primitive:
  "truthy data \<Longrightarrow> has_key k data = Inl TypeError \<longleftrightarrow> \<not> typeof_object data"
  by (cases data) auto

lemma loop_no_array:
  assumes "no_strings_array (json_result (json_replies n (length (sent n))))"
  shows "list_all_strings_loop b off res n =
           Some (if truthy (json_result (json_replies n (length (sent n))))
                    \<and> \<not> typeof_object (json_result (json_replies n (length (sent n))))
                 then Inl TypeError else Inr res,
                 n\<lparr>sent := sent n @ [strings_request off b]\<rparr>)"
proof -
  let ?d = "json_result (json_replies n (length (sent n)))"
  have items: "page_items ?d = []"
    using assms by (rule no_strings_array_items)
  show ?thesis
  proof (cases "truthy ?d")
    case False
    then show ?thesis
      by (subst list_all_strings_loop.simps) (simp add: getJson_def strings_request_def)
  next
    case True
    with items show ?thesis
      by (subst list_all_strings_loop.simps, cases ?d)
        (simp_all add: getJson_def strings_request_def)
  qed
qed


lemma loop_empty_page:
  assumes "is_page (json_replies n (length (sent n))) []"
  shows "list_all_strings_loop b off res n =
           Some (Inr res, n\<lparr>sent := sent n @ [strings_request off b]\<rparr>)"
  by (subst list_all_strings_loop.simps)
    (simp add: getJson_def is_page_result [OF assms] strings_request_def del: has_key.simps)

lemma loop_four_pages:
  assumes len: "length p1 = n" "length p2 = n" "length p3 = n" "length p4 = k" "k < n"
    and nn: "JNull \<notin> set (p1 @ p2 @ p3 @ p4)"
    and r1: "is_page (json_replies net (length (sent net))) p1"
    and r2: "is_page (json_replies net (length (sent net) + 1)) p2"
    and r3: "is_page (json_replies net (length (sent net) + 2)) p3"
    and r4: "is_page (json_replies net (length (sent net) + 3)) p4"
  shows "list_all_strings_loop (int n) 0 [] net =
           Some (Inr (map string_line (p1 @ p2 @ p3 @ p4)),
                 net\<lparr>sent := sent net @ [strings_request 0 (int n), strings_request (int n) (int n),
                    strings_request (2 * int n) (int n), strings_request (3 * int n) (int n)]\<rparr>)"
proof -
  let ?b = "int n"
  let ?n1 = "net\<lparr>sent := sent net @ [strings_request 0 ?b]\<rparr>"
  let ?n2 = "?n1\<lparr>sent := sent ?n1 @ [strings_request (0 + ?b) ?b]\<rparr>"
  let ?n3 = "?n2\<lparr>sent := sent ?n2 @ [strings_request (0 + ?b + ?b) ?b]\<rparr>"
  from len have ne: "p1 \<noteq> []" "p2 \<noteq> []" "p3 \<noteq> []" by auto
  from nn have nn': "JNull \<notin> set p1" "JNull \<notin> set p2" "JNull \<notin> set p3" "JNull \<notin> set p4"
    by auto
  have s1: "list_all_strings_loop ?b 0 [] net =
      list_all_strings_loop ?b (0 + ?b) ([] @ map string_line p1) ?n1"
    using r1 nn'(1) ne(1) len(1) by (intro loop_full_page) auto
  have s2: "list_all_strings_loop ?b (0 + ?b) ([] @ map string_line p1) ?n1 =
      list_all_strings_loop ?b (0 + ?b + ?b) (([] @ map string_line p1) @ map string_line p2) ?n2"
    using r2 nn'(2) ne(2) len(2) by (intro loop_full_page) auto
  have s3: "list_all_strings_loop ?b (0 + ?b + ?b) (([] @ map string_line p1) @ map string_line p2) ?n2 =
      list_all_strings_loop ?b (0 + ?b + ?b + ?b)
        ((([] @ map string_line p1) @ map string_line p2) @ map string_line p3) ?n3"
    using r3 nn'(3) ne(3) len(3) by (intro loop_full_page) auto
  have s4: "list_all_strings_loop ?b (0 + ?b + ?b + ?b)
        ((([] @ map string_line p1) @ map string_line p2) @ map string_line p3) ?n3 =
      Some (Inr (((([] @ map string_line p1) @ map string_line p2) @ map string_line p3)
                  @ map string_line p4),
            ?n3\<lparr>sent := sent ?n3 @ [strings_request (0 + ?b + ?b + ?b) ?b]\<rparr>)"
    using r4 nn'(4) len(4,5) by (intro loop_short_page) (auto simp: numeral_3_eq_3)
  show ?thesis
    unfolding s1 s2 s3 s4 by simp
qed


text \<open>
  Claim C5: for the aggregated strings listing with page size \<open>n\<close>, if the remote endpoint
  returns pages of \<open>n\<close>, \<open>n\<close>, \<open>n\<close> and \<open>k < n\<close> items, the aggregator performs exactly four
  fetches (at offsets \<open>0\<close>, \<open>n\<close>, \<open>2n\<close>, \<open>3n\<close>) and returns the \<open>3n + k\<close> formatted records
  in arrival order; if the first page has no items, it performs exactly one fetch and
  returns an empty result; and the loop ends at a response that has no strings array
  (returning what it has accumulated, or with the \<^verbatim>\<open>TypeError\<close> of the \<^verbatim>\<open>in\<close> test when the
  response is a primitive value). The items of the pages are not \<^verbatim>\<open>null\<close>. A record is the
  address, length, type and value of its item, separated by tab characters.
\<close>

theorem list_all_strings_aggregation:
  "(length p1 = n \<and> length p2 = n \<and> length p3 = n \<and> length p4 = k \<and> k < n
      \<and> JNull \<notin> set (p1 @ p2 @ p3 @ p4)
      \<and> is_page (json_replies net (length (sent net))) p1
      \<and> is_page (json_replies net (length (sent net) + 1)) p2
      \<and> is_page (json_replies net (length (sent net) + 2)) p3
      \<and> is_page (json_replies net (length (sent net) + 3)) p4 \<longrightarrow>
    list_all_strings (int n) net =
      Some (Inr (join [newline] (map string_line (p1 @ p2 @ p3 @ p4))),
            net\<lparr>sent := sent net @ [strings_request 0 (int n), strings_request (int n) (int n),
               strings_request (2 * int n) (int n), strings_request (3 * int n) (int n)]\<rparr>)
    \<and> list_all_strings_loop (int n) 0 [] net =
      Some (Inr (map string_line (p1 @ p2 @ p3 @ p4)),
            net\<lparr>sent := sent net @ [strings_request 0 (int n), strings_request (int n) (int n),
               strings_request (2 * int n) (int n), strings_request (3 * int n) (int n)]\<rparr>)
    \<and> length (map string_line (p1 @ p2 @ p3 @ p4)) = 3 * n + k)
   \<and> (is_page (json_replies net (length (sent net))) [] \<longrightarrow>
    list_all_strings b net = Some (Inr [], net\<lparr>sent := sent net @ [strings_request 0 b]\<rparr>))
   \<and> (no_strings_array (json_result (json_replies net (length (sent net)))) \<longrightarrow>
    list_all_strings_loop b off res net =
      Some (if truthy (json_result (json_replies net (length (sent net))))
               \<and> \<not> typeof_object (json_result (json_replies net (length (sent net))))
            then Inl TypeError else Inr res,
            net\<lparr>sent := sent net @ [strings_request off b]\<rparr>))
   \<and> (map_of kvs ''address'' = Some (JStr a) \<and> map_of kvs ''length'' = Some (JNum l)
        \<and> map_of kvs ''type'' = Some (JStr t) \<and> map_of kvs ''value'' = Some (JStr v) \<longrightarrow>
    string_line (JObj kvs) = a @ [CHR 0x09] @ num_str l @ [CHR 0x09] @ t @ [CHR 0x09] @ v)"
proof (intro conjI impI)
  assume h: "length p1 = n \<and> length p2 = n \<and> length p3 = n \<and> length p4 = k \<and> k < n
      \<and> JNull \<notin> set (p1 @ p2 @ p3 @ p4)
      \<and> is_page (json_replies net (length (sent net))) p1
      \<and> is_page (json_replies net (length (sent net) + 1)) p2
      \<and> is_page (json_replies net (length (sent net) + 2)) p3
      \<and> is_page (json_replies net (length (sent net) + 3)) p4"
  then show loop: "list_all_strings_loop (int n) 0 [] net =
      Some (Inr (map string_line (p1 @ p2 @ p3 @ p4)),
            net\<lparr>sent := sent net @ [strings_request 0 (int n), strings_request (int n) (int n),
               strings_request (2 * int n) (int n), strings_request (3 * int n) (int n)]\<rparr>)"
    by (intro loop_four_pages [where k = k]) simp_all
  then show "list_all_strings (int n) net =
      Some (Inr (join [newline] (map string_line (p1 @ p2 @ p3 @ p4))),
            net\<lparr>sent := sent net @ [strings_request 0 (int n), strings_request (int n) (int n),
               strings_request (2 * int n) (int n), strings_request (3 * int n) (int n)]\<rparr>)"
    by (simp add: list_all_strings_def)
  from h show "length (map string_line (p1 @ p2 @ p3 @ p4)) = 3 * n + k"
    by simp
next
  assume "is_page (json_replies net (length (sent net))) []"
  then have "list_all_strings_loop b 0 [] net =
      Some (Inr [], net\<lparr>sent := sent net @ [strings_request 0 b]\<rparr>)"
    by (rule loop_empty_page)
  then show "list_all_strings b net = Some (Inr [], net\<lparr>sent := sent net @ [strings_request 0 b]\<rparr>)"
    by (simp add: list_all_strings_def)
next
  assume "no_strings_array (json_result (json_replies net (length (sent net))))"
  then show "list_all_strings_loop b off res net =
      Some (if truthy (json_result (json_replies net (length (sent net))))
               \<and> \<not> typeof_object (json_result (json_replies net (length (sent net))))
            then Inl TypeError else Inr res,
            net\<lparr>sent := sent net @ [strings_request off b]\<rparr>)"
    by (rule loop_no_array)
next
  assume "map_of kvs ''address'' = Some (JStr a) \<and> map_of kvs ''length'' = Some (JNum l)
        \<and> map_of kvs ''type'' = Some (JStr t) \<and> map_of kvs ''value'' = Some (JStr v)"
  then show "string_line (JObj kvs) = a @ [CHR 0x09] @ num_str l @ [CHR 0x09] @ t @ [CHR 0x09] @ v"
    by (auto simp: string_line_def js_or_def tmpl_def tab_def)
qed


theorem list_all_strings_aggregation_witness:
  "map_option fst (list_all_strings 2 four_pages) =
     Some (Inr (''0x1000'' @ [CHR 0x09] @ ''2'' @ [CHR 0x09] @ ''ascii'' @ [CHR 0x09] @ ''ab\<newline>0x1010''
                @ [CHR 0x09] @ ''2'' @ [CHR 0x09] @ ''ascii'' @ [CHR 0x09] @ ''cd\<newline>0x1020''
                @ [CHR 0x09] @ ''2'' @ [CHR 0x09] @ ''ascii'' @ [CHR 0x09] @ ''ef\<newline>0x1030''
                @ [CHR 0x09] @ ''2'' @ [CHR 0x09] @ ''ascii'' @ [CHR 0x09] @ ''gh\<newline>0x1040''
                @ [CHR 0x09] @ ''2'' @ [CHR 0x09] @ ''ascii'' @ [CHR 0x09] @ ''ij\<newline>0x1050''
                @ [CHR 0x09] @ ''2'' @ [CHR 0x09] @ ''ascii'' @ [CHR 0x09] @ ''kl\<newline>0x1060''
                @ [CHR 0x09] @ ''2'' @ [CHR 0x09] @ ''ascii'' @ [CHR 0x09] @ ''mn''))
   \<and> map_option fst (list_all_strings_loop 2 0 [] four_pages) =
     Some (Inr [''0x1000'' @ [CHR 0x09] @ ''2'' @ [CHR 0x09] @ ''ascii'' @ [CHR 0x09] @ ''ab'',
                ''0x1010'' @ [CHR 0x09] @ ''2'' @ [CHR 0x09] @ ''ascii'' @ [CHR 0x09] @ ''cd'',
                ''0x1020'' @ [CHR 0x09] @ ''2'' @ [CHR 0x09] @ ''ascii'' @ [CHR 0x09] @ ''ef'',
                ''0x1030'' @ [CHR 0x09] @ ''2'' @ [CHR 0x09] @ ''ascii'' @ [CHR 0x09] @ ''gh'',
                ''0x1040'' @ [CHR 0x09] @ ''2'' @ [CHR 0x09] @ ''ascii'' @ [CHR 0x09] @ ''ij'',
                ''0x1050'' @ [CHR 0x09] @ ''2'' @ [CHR 0x09] @ ''ascii'' @ [CHR 0x09] @ ''kl'',
                ''0x1060'' @ [CHR 0x09] @ ''2'' @ [CHR 0x09] @ ''ascii'' @ [CHR 0x09] @ ''mn''])
   \<and> map_option (\<lambda>r. sent (snd r)) (list_all_strings 2 four_pages) =
     Some [GetJson ''strings'' [(''offset'', PNum 0), (''limit'', PNum 2)],
           GetJson ''strings'' [(''offset'', PNum 2), (''limit'', PNum 2)],
           GetJson ''strings'' [(''offset'', PNum 4), (''limit'', PNum 2)],
           GetJson ''strings'' [(''offset'', PNum 6), (''limit'', PNum 2)]]
   \<and> map_option (\<lambda>r. sent (snd r)) (list_all_strings 500 (scripted [page []] [])) =
     Some [GetJson ''strings'' [(''offset'', PNum 0), (''limit'', PNum 500)]]
   \<and> map_option fst (list_all_strings 500 (scripted [page []] [])) = Some (Inr [])
   \<and> map_option fst (list_all_strings_loop 500 0 [] offline) = Some (Inr [])
   \<and> map_option (\<lambda>r. sent (snd r)) (list_all_strings_loop 500 0 [] offline) =
     Some [GetJson ''strings'' [(''offset'', PNum 0), (''limit'', PNum 500)]]
   \<and> string_line (JObj [(''address'', JStr ''0x1000''), (''length'', JNum 2),
                         (''type'', JStr ''ascii''), (''value'', JStr ''ab'')]) =
     ''0x1000'' @ [CHR 0x09] @ ''2'' @ [CHR 0x09] @ ''ascii'' @ [CHR 0x09] @ ''ab''"
proof -
  let ?p1 = "[str_item ''0x1000'' ''ab'', str_item ''0x1010'' ''cd'']"
  let ?p2 = "[str_item ''0x1020'' ''ef'', str_item ''0x1030'' ''gh'']"
  let ?p3 = "[str_item ''0x1040'' ''ij'', str_item ''0x1050'' ''kl'']"
  let ?p4 = "[str_item ''0x1060'' ''mn'']"
  note t1 = list_all_strings_aggregation
    [where ?p1.0 = ?p1 and ?p2.0 = ?p2 and ?p3.0 = ?p3 and ?p4.0 = ?p4
       and n = 2 and k = 1 and net = four_pages, THEN conjunct1]
  note t2 = list_all_strings_aggregation
    [where net = "scripted [page []] []" and b = 500, THEN conjunct2, THEN conjunct1]
  note t3 = list_all_strings_aggregation
    [where net = offline and b = 500 and off = 0 and res = "[]",
     THEN conjunct2, THEN conjunct2, THEN conjunct1]
  note t4 = list_all_strings_aggregation
    [where kvs = "[(''address'', JStr ''0x1000''), (''length'', JNum 2),
                   (''type'', JStr ''ascii''), (''value'', JStr ''ab'')]"
       and a = "''0x1000''" and l = 2 and t = "''ascii''" and v = "''ab''",
     THEN conjunct2, THEN conjunct2, THEN conjunct2]
  have r: "json_result refused = JObj [(''error'', JStr (''Request failed: '' @ hint))]"
    by (simp add: json_result_def client_get_def getJson_body_def refused_def hint_def)
  have two: "num_str 2 = ''2''"
    by code_simp
  have recs: "map string_line (?p1 @ ?p2 @ ?p3 @ ?p4) =
      [''0x1000'' @ [CHR 0x09] @ ''2'' @ [CHR 0x09] @ ''ascii'' @ [CHR 0x09] @ ''ab'',
       ''0x1010'' @ [CHR 0x09] @ ''2'' @ [CHR 0x09] @ ''ascii'' @ [CHR 0x09] @ ''cd'',
       ''0x1020'' @ [CHR 0x09] @ ''2'' @ [CHR 0x09] @ ''ascii'' @ [CHR 0x09] @ ''ef'',
       ''0x1030'' @ [CHR 0x09] @ ''2'' @ [CHR 0x09] @ ''ascii'' @ [CHR 0x09] @ ''gh'',
       ''0x1040'' @ [CHR 0x09] @ ''2'' @ [CHR 0x09] @ ''ascii'' @ [CHR 0x09] @ ''ij'',
       ''0x1050'' @ [CHR 0x09] @ ''2'' @ [CHR 0x09] @ ''ascii'' @ [CHR 0x09] @ ''kl'',
       ''0x1060'' @ [CHR 0x09] @ ''2'' @ [CHR 0x09] @ ''ascii'' @ [CHR 0x09] @ ''mn'']"
    by code_simp
  have pre: "length ?p1 = 2 \<and> length ?p2 = 2 \<and> length ?p3 = 2 \<and> length ?p4 = 1 \<and> (1::nat) < 2
      \<and> JNull \<notin> set (?p1 @ ?p2 @ ?p3 @ ?p4)
      \<and> is_page (json_replies four_pages (length (sent four_pages))) ?p1
      \<and> is_page (json_replies four_pages (length (sent four_pages) + 1)) ?p2
      \<and> is_page (json_replies four_pages (length (sent four_pages) + 2)) ?p3
      \<and> is_page (json_replies four_pages (length (sent four_pages) + 3)) ?p4"
    by (simp add: four_pages_def scripted_def page_def ok_def is_page_def str_item_def)
  from t1 pre have run: "list_all_strings (int 2) four_pages =
      Some (Inr (join [newline] (map string_line (?p1 @ ?p2 @ ?p3 @ ?p4))),
            four_pages\<lparr>sent := sent four_pages @ [strings_request 0 (int 2),
               strings_request (int 2) (int 2), strings_request (2 * int 2) (int 2),
               strings_request (3 * int 2) (int 2)]\<rparr>)"
    and loop: "list_all_strings_loop (int 2) 0 [] four_pages =
      Some (Inr (map string_line (?p1 @ ?p2 @ ?p3 @ ?p4)),
            four_pages\<lparr>sent := sent four_pages @ [strings_request 0 (int 2),
               strings_request (int 2) (int 2), strings_request (2 * int 2) (int 2),
               strings_request (3 * int 2) (int 2)]\<rparr>)"
    by blast+
  have w1: "map_option fst (list_all_strings 2 four_pages) =
     Some (Inr (''0x1000'' @ [CHR 0x09] @ ''2'' @ [CHR 0x09] @ ''ascii'' @ [CHR 0x09] @ ''ab\<newline>0x1010''
                @ [CHR 0x09] @ ''2'' @ [CHR 0x09] @ ''ascii'' @ [CHR 0x09] @ ''cd\<newline>0x1020''
                @ [CHR 0x09] @ ''2'' @ [CHR 0x09] @ ''ascii'' @ [CHR 0x09] @ ''ef\<newline>0x1030''
                @ [CHR 0x09] @ ''2'' @ [CHR 0x09] @ ''ascii'' @ [CHR 0x09] @ ''gh\<newline>0x1040''
                @ [CHR 0x09] @ ''2'' @ [CHR 0x09] @ ''ascii'' @ [CHR 0x09] @ ''ij\<newline>0x1050''
                @ [CHR 0x09] @ ''2'' @ [CHR 0x09] @ ''ascii'' @ [CHR 0x09] @ ''kl\<newline>0x1060''
                @ [CHR 0x09] @ ''2'' @ [CHR 0x09] @ ''ascii'' @ [CHR 0x09] @ ''mn''))"
    using run unfolding recs by (simp add: newline_def)
  have w2: "map_option fst (list_all_strings_loop 2 0 [] four_pages) =
     Some (Inr [''0x1000'' @ [CHR 0x09] @ ''2'' @ [CHR 0x09] @ ''ascii'' @ [CHR 0x09] @ ''ab'',
                ''0x1010'' @ [CHR 0x09] @ ''2'' @ [CHR 0x09] @ ''ascii'' @ [CHR 0x09] @ ''cd'',
                ''0x1020'' @ [CHR 0x09] @ ''2'' @ [CHR 0x09] @ ''ascii'' @ [CHR 0x09] @ ''ef'',
                ''0x1030'' @ [CHR 0x09] @ ''2'' @ [CHR 0x09] @ ''ascii'' @ [CHR 0x09] @ ''gh'',
                ''0x1040'' @ [CHR 0x09] @ ''2'' @ [CHR 0x09] @ ''ascii'' @ [CHR 0x09] @ ''ij'',
                ''0x1050'' @ [CHR 0x09] @ ''2'' @ [CHR 0x09] @ ''ascii'' @ [CHR 0x09] @ ''kl'',
                ''0x1060'' @ [CHR 0x09] @ ''2'' @ [CHR 0x09] @ ''ascii'' @ [CHR 0x09] @ ''mn''])"
    using loop unfolding recs by simp
  have w3: "map_option (\<lambda>r. sent (snd r)) (list_all_strings 2 four_pages) =
     Some [GetJson ''strings'' [(''offset'', PNum 0), (''limit'', PNum 2)],
           GetJson ''strings'' [(''offset'', PNum 2), (''limit'', PNum 2)],
           GetJson ''strings'' [(''offset'', PNum 4), (''limit'', PNum 2)],
           GetJson ''strings'' [(''offset'', PNum 6), (''limit'', PNum 2)]]"
    using run by (simp add: strings_request_def four_pages_def scripted_def)
  have w45: "map_option (\<lambda>r. sent (snd r)) (list_all_strings 500 (scripted [page []] [])) =
     Some [GetJson ''strings'' [(''offset'', PNum 0), (''limit'', PNum 500)]]"
    "map_option fst (list_all_strings 500 (scripted [page []] [])) = Some (Inr [])"
    using t2 by (simp_all add: scripted_def page_def ok_def is_page_def strings_request_def)
  have w67: "map_option fst (list_all_strings_loop 500 0 [] offline) = Some (Inr [])"
    "map_option (\<lambda>r. sent (snd r)) (list_all_strings_loop 500 0 [] offline) =
     Some [GetJson ''strings'' [(''offset'', PNum 0), (''limit'', PNum 500)]]"
    using t3 by (simp_all add: scripted_def offline_def no_strings_array_def r strings_request_def)
  have w8: "string_line (JObj [(''address'', JStr ''0x1000''), (''length'', JNum 2),
                         (''type'', JStr ''ascii''), (''value'', JStr ''ab'')]) =
     ''0x1000'' @ [CHR 0x09] @ ''2'' @ [CHR 0x09] @ ''ascii'' @ [CHR 0x09] @ ''ab''"
    using t4 by (simp add: two)
  from w1 w2 w3 w45 w67 w8 show ?thesis
    by blast
qed


section \<open>The transport client: failures as values\<close>

lemma fst_getText: "fst (getText ep ps n) = text_result ep (text_replies n (length (sent n)))"
  by (simp add: getText_def)

lemma fst_getJson: "fst (getJson ep ps n) = json_result (json_replies n (length (sent n)))"
  by (simp add: getJson_def)

lemma fst_getLines:
  "fst (getLines ep ps n) = split_nl (text_result ep (text_replies n (length (sent n))))"
  by (simp add: getLines_def getText_def)

lemma text_result_NoResponse:
  "text_result ep (NoResponse msg) = ''Error: GET '' @ ep @ '' failed: '' @ hint"
  by (simp add: text_result_def client_get_def getText_body_def handleError_def hint_def)

lemma json_result_NoResponse:
  "json_result (NoResponse msg) = JObj [(''error'', JStr (''Request failed: '' @ hint))]"
  by (simp add: json_result_def client_get_def getJson_body_def hint_def)

lemma text_result_status:
  "\<not> (200 \<le> status \<and> status < 300) \<Longrightarrow>
   text_result ep (Response status st body) =
     ''Error: GET '' @ ep @ '' failed: Server returned '' @ num_str status @ '': '' @ st"
  by (auto simp: text_result_def client_get_def validateStatus_def getText_body_def
      handleError_def)

lemma json_result_status:
  "\<not> (200 \<le> status \<and> status < 300) \<Longrightarrow>
   json_result (Response status st data) =
     JObj [(''error'', JStr (''Request failed: Server returned '' @ num_str status @ '': '' @ st))]"
  by (auto simp: json_result_def client_get_def validateStatus_def getJson_body_def)

lemma text_endpoints_one_line: "list_all (\<lambda>ep. newline \<notin> set ep) text_endpoints"
  by (simp add: text_endpoints_def newline_def)

lemma hint_one_line: "newline \<notin> set hint"
  by (simp add: hint_def newline_def)

text \<open>
  Claim C6: the transport client never raises to its caller. For a GET whose underlying
  request fails (unreachable host, timeout, or another transport error: no response
  comes), \<^verbatim>\<open>getText\<close> returns an error string, \<^verbatim>\<open>getJson\<close> returns a value with an \<^verbatim>\<open>error\<close>
  field, and \<^verbatim>\<open>getLines\<close> returns a single-element sequence containing the error string,
  for an endpoint without a newline in it, as every endpoint of the handlers is. In the
  model the three functions return plain values: their types have no exception.
\<close>

theorem transport_failure_is_a_value:
  "(text_replies n (length (sent n)) = NoResponse msg \<longrightarrow>
      fst (getText ep ps n) =
        ''Error: GET '' @ ep @ '' failed: ''
        @ ''No response from server - is Binary Ninja running with the MCP plugin?''
      \<and> startsWith (fst (getText ep ps n)) ''Error: ''
      \<and> (newline \<notin> set ep \<longrightarrow>
           fst (getLines ep ps n) =
             [''Error: GET '' @ ep @ '' failed: ''
              @ ''No response from server - is Binary Ninja running with the MCP plugin?''])
      \<and> (ep \<in> set text_endpoints \<longrightarrow>
           fst (getLines ep ps n) =
             [''Error: GET '' @ ep @ '' failed: ''
              @ ''No response from server - is Binary Ninja running with the MCP plugin?'']))
   \<and> (json_replies n (length (sent n)) = NoResponse msg \<longrightarrow>
      fst (getJson ep ps n) =
        JObj [(''error'', JStr ''Request failed: No response from server - is Binary Ninja running with the MCP plugin?'')]
      \<and> has_error_field (fst (getJson ep ps n)))"
proof (intro conjI impI)
  assume r: "text_replies n (length (sent n)) = NoResponse msg"
  let ?e = "''Error: GET '' @ ep @ '' failed: '' @ hint"
  from r have t: "fst (getText ep ps n) = ?e"
    by (simp add: fst_getText text_result_NoResponse)
  then show "fst (getText ep ps n) =
        ''Error: GET '' @ ep @ '' failed: ''
        @ ''No response from server - is Binary Ninja running with the MCP plugin?''"
    by (simp add: hint_def)
  show "startsWith (fst (getText ep ps n)) ''Error: ''"
    unfolding t by (simp add: startsWith_def)
  from r have l: "fst (getLines ep ps n) = split_nl ?e"
    by (simp add: fst_getLines text_result_NoResponse)
  have single: "fst (getLines ep ps n) =
             [''Error: GET '' @ ep @ '' failed: ''
              @ ''No response from server - is Binary Ninja running with the MCP plugin?'']"
    if "newline \<notin> set ep"
  proof -
    from that hint_one_line have "newline \<notin> set ?e"
      by (auto simp: newline_def)
    then have "split_nl ?e = [?e]"
      by (rule split_nl_single)
    with l show ?thesis
      by (simp add: hint_def)
  qed
  {
    assume "newline \<notin> set ep"
    then show "fst (getLines ep ps n) =
             [''Error: GET '' @ ep @ '' failed: ''
              @ ''No response from server - is Binary Ninja running with the MCP plugin?'']"
      by (rule single)
  }
  {
    assume "ep \<in> set text_endpoints"
    with text_endpoints_one_line have "newline \<notin> set ep"
      by (simp add: list_all_iff)
    then show "fst (getLines ep ps n) =
             [''Error: GET '' @ ep @ '' failed: ''
              @ ''No response from server - is Binary Ninja running with the MCP plugin?'']"
      by (rule single)
  }
next
  assume r: "json_replies n (length (sent n)) = NoResponse msg"
  then show j: "fst (getJson ep ps n) =
        JObj [(''error'', JStr ''Request failed: No response from server - is Binary Ninja running with the MCP plugin?'')]"
    by (simp add: fst_getJson json_result_NoResponse hint_def)
  show "has_error_field (fst (getJson ep ps n))"
    unfolding j by (simp add: has_error_field_def)
qed

theorem transport_failure_is_a_value_witness:
  "fst (getText ''status'' [] offline) =
     ''Error: GET status failed: No response from server - is Binary Ninja running with the MCP plugin?''
   \<and> fst (getLines ''status'' [] offline) =
     [''Error: GET status failed: No response from server - is Binary Ninja running with the MCP plugin?'']
   \<and> length (fst (getLines ''comment'' [(''address'', PStr ''0x401000'')] offline)) = 1
   \<and> fst (getJson ''status'' [] offline) =
     JObj [(''error'', JStr ''Request failed: No response from server - is Binary Ninja running with the MCP plugin?'')]"
proof -
  have r: "text_replies offline (length (sent offline)) = NoResponse ''connect ECONNREFUSED 127.0.0.1:9009''"
    "json_replies offline (length (sent offline)) = NoResponse ''connect ECONNREFUSED 127.0.0.1:9009''"
    by (simp_all add: offline_def scripted_def refused_def)
  have ep: "newline \<notin> set ''status''" "''comment'' \<in> set text_endpoints"
    by (simp_all add: newline_def text_endpoints_def)
  note t1 = transport_failure_is_a_value
    [where n = offline and ep = "''status''" and ps = "[]"
       and msg = "''connect ECONNREFUSED 127.0.0.1:9009''"]
  note t2 = transport_failure_is_a_value
    [where n = offline and ep = "''comment''" and ps = "[(''address'', PStr ''0x401000'')]"
       and msg = "''connect ECONNREFUSED 127.0.0.1:9009''", THEN conjunct1]
  have w1: "fst (getText ''status'' [] offline) =
     ''Error: GET status failed: No response from server - is Binary Ninja running with the MCP plugin?''"
    and w2: "fst (getLines ''status'' [] offline) =
     [''Error: GET status failed: No response from server - is Binary Ninja running with the MCP plugin?'']"
    and w4: "fst (getJson ''status'' [] offline) =
     JObj [(''error'', JStr ''Request failed: No response from server - is Binary Ninja running with the MCP plugin?'')]"
    using t1 r ep(1) by simp_all
  have w3: "length (fst (getLines ''comment'' [(''address'', PStr ''0x401000'')] offline)) = 1"
    using t2 r(1) ep(2) by simp
  from w1 w2 w3 w4 show ?thesis
    by blast
qed


section \<open>The transport client: a response with an error body\<close>

lemma has_error_field_iff:
  "has_error_field data \<longleftrightarrow> truthy data \<and> typeof_object data \<and> has_key ''error'' data = Inr True"
  by (cases data) (auto simp: has_error_field_def map_of_eq_None_iff)

text \<open>
  The branches that \<^verbatim>\<open>getJson\<close> has for a resolved response: the data on a status in
  200..299, otherwise the data again if it is an object with an \<^verbatim>\<open>error\<close> field, otherwise
  a synthesized error. The last two need \<^verbatim>\<open>client.get\<close> to resolve with a status outside
  200..299, which this client never does.
\<close>

lemma getJson_body_passthrough:
  "has_error_field data \<Longrightarrow> getJson_body (Resolved status st data) = data"
  by (simp add: getJson_body_def has_error_field_iff)

lemma getJson_body_synthesized:
  "\<not> has_error_field data \<Longrightarrow> \<not> (200 \<le> status \<and> status < 300) \<Longrightarrow>
   getJson_body (Resolved status st data) =
     JObj [(''error'', JStr (''Error '' @ num_str status @ '': '' @ st))]"
  by (auto simp: getJson_body_def has_error_field_iff)

lemma client_get_never_resolves_outside_2xx:
  "client_get r = Resolved status st data \<Longrightarrow> 200 \<le> status \<and> status < 300"
  by (auto simp: client_get_def validateStatus_def split: reply.splits if_splits)

text \<open>
  Claim C7: for \<^verbatim>\<open>getJson\<close>, a response body that is an object carrying an \<^verbatim>\<open>error\<close> field is
  returned unchanged even when the HTTP status is not 2xx; a non-2xx status without such a
  body gives a synthesized \<^verbatim>\<open>{error: ...}\<close> value that embeds the status; a network failure
  gives a value whose \<^verbatim>\<open>error\<close> field starts with \<^verbatim>\<open>Request failed: \<close>.
  The code at a 404 response whose body is \<^verbatim>\<open>{"error": "Function not found"}\<close>: the promise
  of \<^verbatim>\<open>client.get\<close> rejects, and \<^verbatim>\<open>getJson\<close> returns the value of its \<^verbatim>\<open>catch\<close>, not the body;
  the branch written for this case would have returned the body.
\<close>

theorem getJson_error_body_not_passed_through:
  "fst (getJson ''decompile'' [(''name'', PStr ''nope'')]
     (scripted [Response 404 ''Not Found'' (JObj [(''error'', JStr ''Function not found'')])] []))
     = JObj [(''error'', JStr ''Request failed: Server returned 404: Not Found'')]
   \<and> client_get (Response 404 ''Not Found'' (JObj [(''error'', JStr ''Function not found'')]))
     = Rejected (AxiosError (Some (404, ''Not Found'')) True ''Request failed with status code 404'')
   \<and> getJson_body (Resolved 404 ''Not Found'' (JObj [(''error'', JStr ''Function not found'')]))
     = JObj [(''error'', JStr ''Function not found'')]"
  by code_simp


section \<open>Reading a comment\<close>

lemma text_result_ok:
  "200 \<le> status \<Longrightarrow> status < 300 \<Longrightarrow> text_result ep (Response status st body) = body"
  by (simp add: text_result_def client_get_def validateStatus_def getText_body_def)

lemma first_line_cut:
  "newline \<in> set s \<Longrightarrow> \<exists>rest. s = first_line s @ newline # rest"
  unfolding first_line_def
  by (metis (mono_tags, lifting) hd_dropWhile takeWhile_dropWhile_id list.collapse
      dropWhile_eq_Nil_conv)

lemma first_line_no_newline: "newline \<notin> set (first_line s)"
  by (auto simp: first_line_def dest: set_takeWhileD)

lemma get_comment_text:
  "fst (get_comment address n) =
     Inr (first_line (text_result ''comment'' (text_replies n (length (sent n)))))"
proof -
  let ?t = "text_result ''comment'' (text_replies n (length (sent n)))"
  have "split_nl ?t \<noteq> []" by (rule split_nl_nonempty)
  then obtain l ls where c: "split_nl ?t = l # ls" by (cases "split_nl ?t") auto
  then have "l = first_line ?t" using hd_split_nl [of ?t] by simp
  with c show ?thesis
    by (simp add: get_comment_def getLines_def getText_def)
qed

lemma get_function_comment_text:
  "fst (get_function_comment name n) =
     Inr (first_line (text_result ''comment/function'' (text_replies n (length (sent n)))))"
proof -
  let ?t = "text_result ''comment/function'' (text_replies n (length (sent n)))"
  have "split_nl ?t \<noteq> []" by (rule split_nl_nonempty)
  then obtain l ls where c: "split_nl ?t = l # ls" by (cases "split_nl ?t") auto
  then have "l = first_line ?t" using hd_split_nl [of ?t] by simp
  with c show ?thesis
    by (simp add: get_function_comment_def getLines_def getText_def)
qed

text \<open>
  Claim C10: \<^verbatim>\<open>get_comment\<close> and \<^verbatim>\<open>get_function_comment\<close> return only the portion of the text
  that \<^verbatim>\<open>getText\<close> gave (the remote response, or an error message) before its first
  newline character: for a response text containing a newline everything from that newline
  on is dropped, and an empty response yields an empty text payload.
\<close>

theorem comment_first_line_only:
  "fst (get_comment address n) =
     Inr (first_line (fst (getText ''comment'' [(''address'', PStr address)] n)))
   \<and> fst (get_function_comment name n) =
     Inr (first_line (fst (getText ''comment/function'' [(''name'', PStr name)] n)))
   \<and> (text_replies n (length (sent n)) = Response status st body
        \<and> 200 \<le> status \<and> status < 300 \<longrightarrow>
      fst (get_comment address n) = Inr (first_line body)
      \<and> fst (get_function_comment name n) = Inr (first_line body)
      \<and> newline \<notin> set (first_line body)
      \<and> (newline \<in> set body \<longrightarrow>
           (\<exists>rest. body = first_line body @ newline # rest)
           \<and> length (first_line body) < length body)
      \<and> (body = [] \<longrightarrow>
           fst (get_comment address n) = Inr [] \<and> fst (get_function_comment name n) = Inr []))"
proof (intro conjI impI)
  show "fst (get_comment address n) =
     Inr (first_line (fst (getText ''comment'' [(''address'', PStr address)] n)))"
    by (simp add: get_comment_text fst_getText)
  show "fst (get_function_comment name n) =
     Inr (first_line (fst (getText ''comment/function'' [(''name'', PStr name)] n)))"
    by (simp add: get_function_comment_text fst_getText)
next
  assume r: "text_replies n (length (sent n)) = Response status st body
        \<and> 200 \<le> status \<and> status < 300"
  then show c: "fst (get_comment address n) = Inr (first_line body)"
    by (simp add: get_comment_text text_result_ok)
  from r show f: "fst (get_function_comment name n) = Inr (first_line body)"
    by (simp add: get_function_comment_text text_result_ok)
  show "newline \<notin> set (first_line body)"
    by (rule first_line_no_newline)
  {
    assume nl: "newline \<in> set body"
    then show cut: "\<exists>rest. body = first_line body @ newline # rest"
      by (rule first_line_cut)
    then obtain rest where "body = first_line body @ newline # rest" ..
    then have "length body = length (first_line body) + Suc (length rest)"
      by (metis length_append length_Cons)
    then show "length (first_line body) < length body"
      by simp
  }
  {
    assume "body = []"
    then show "fst (get_comment address n) = Inr []" "fst (get_function_comment name n) = Inr []"
      unfolding c f by (simp_all add: first_line_def)
  }
qed

theorem comment_first_line_only_witness:
  "fst (get_comment ''0x401000'' (scripted [] [ok ''first line\<newline>second line\<newline>third'']))
     = Inr ''first line''
   \<and> fst (get_function_comment ''main'' (scripted [] [ok ''first line\<newline>second line\<newline>third'']))
     = Inr ''first line''
   \<and> fst (get_comment ''0x401000'' (scripted [] [ok []])) = Inr []
   \<and> fst (get_function_comment ''main'' (scripted [] [ok []])) = Inr []"
proof -
  note t1 = comment_first_line_only
    [where n = "scripted [] [ok ''first line\<newline>second line\<newline>third'']" and status = 200
       and st = "''OK''" and body = "''first line\<newline>second line\<newline>third''"
       and address = "''0x401000''" and name = "''main''",
     THEN conjunct2, THEN conjunct2]
  note t2 = comment_first_line_only
    [where n = "scripted [] [ok []]" and status = 200
       and st = "''OK''" and body = "[]"
       and address = "''0x401000''" and name = "''main''",
     THEN conjunct2, THEN conjunct2]
  show ?thesis
    using t1 t2
    by (simp add: scripted_def ok_def first_line_def newline_def)
qed


section \<open>How handlers render an error response\<close>

lemma error_reply_shape:
  assumes "map_of kvs ''error'' = Some e"
  shows "has_key ''error'' (JObj kvs) = Inr True" and "field (JObj kvs) ''error'' = Some e"
  using assms by (simp_all add: has_key_present del: has_key.simps)

lemma rename_multi_variables_error:
  assumes "chosen m p r = Some (k, v)" and "k = ''pairs'' \<or> JSON_parse_ok v"
    and "json_result (json_replies n (length (sent n))) = JObj kvs"
    and "map_of kvs ''error'' = Some e"
  shows "fst (rename_multi_variables fi m p r n) = Inr (''Error: '' @ to_str e)"
  by (simp add: rename_multi_variables_forward [OF assms(1,2)] Let_def assms(3)
      error_reply_shape [OF assms(4)] tmpl_def del: has_key.simps field.simps)

lemma get_data_decl_error:
  assumes "json_result (json_replies n (length (sent n))) = JObj kvs"
    and "map_of kvs ''error'' = Some e"
  shows "fst (get_data_decl s len n) = Inr (''Error: '' @ to_str e)"
  by (simp add: get_data_decl_def getJson_def Let_def assms(1) error_reply_shape [OF assms(2)]
      tmpl_def del: has_key.simps field.simps)

lemma patch_bytes_error:
  assumes "json_result (json_replies n (length (sent n))) = JObj kvs"
    and "map_of kvs ''error'' = Some e"
  shows "fst (patch_bytes address bytes save n) = Inr (''Error: '' @ to_str e)"
  by (simp add: patch_bytes_def getJson_def Let_def assms(1) error_reply_shape [OF assms(2)]
      tmpl_def del: has_key.simps field.simps)

lemma get_stack_frame_vars_error:
  assumes "json_result (json_replies n (length (sent n))) = JObj kvs"
    and "map_of kvs ''error'' = Some e"
  shows "fst (get_stack_frame_vars s n) = Inr []"
  by (simp add: get_stack_frame_vars_def getJson_def Let_def assms(1) error_reply_shape [OF assms(2)]
      del: has_key.simps field.simps)

lemma fetch_disassembly_error:
  assumes "json_result (json_replies n (Suc (length (sent n)))) = JObj kvs"
    and "map_of kvs ''error'' = Some e"
  shows "fst (fetch_disassembly name n) =
     Inr (''File: '' @ to_str (fst (getActiveFilename n)) @ [newline, newline]
          @ ''Error: '' @ to_str e)"
  by (simp add: fetch_disassembly_def getActiveFilename_def getJson_def Let_def assms(1)
      error_reply_shape [OF assms(2)] tmpl_def del: has_key.simps field.simps)

text \<open>
  Claim C8, as stated: every operation handler renders a transport failure or an
  error-field-bearing JSON response as the text \<^verbatim>\<open>Error: <message>\<close>, in particular
  \<^verbatim>\<open>get_stack_frame_vars\<close>, not as an empty text. It does not: on both, the payload of
  \<^verbatim>\<open>get_stack_frame_vars\<close> is the empty text.
\<close>

theorem get_stack_frame_vars_error_counterexample:
  "has_error_field (JObj [(''error'', JStr ''Function not found'')])
   \<and> fst (get_stack_frame_vars ''main''
        (scripted [ok (JObj [(''error'', JStr ''Function not found'')])] [])) = Inr []
   \<and> fst (getJson ''getStackFrameVars'' [(''name'', PStr ''main'')] offline) =
       JObj [(''error'', JStr ''Request failed: No response from server - is Binary Ninja running with the MCP plugin?'')]
   \<and> fst (get_stack_frame_vars ''main'' offline) = Inr []"
  by code_simp

text \<open>
  Claim C8, amended: an error-field-bearing JSON response, which is also what \<^verbatim>\<open>getJson\<close>
  makes of a transport failure, is rendered as the text \<^verbatim>\<open>Error: <message>\<close> by
  \<^verbatim>\<open>rename_multi_variables\<close>, \<^verbatim>\<open>get_data_decl\<close> and \<^verbatim>\<open>patch_bytes\<close>, and as that line after the
  \<^verbatim>\<open>File: <name>\<close> header by \<^verbatim>\<open>fetch_disassembly\<close>; \<^verbatim>\<open>get_stack_frame_vars\<close> renders it as
  an empty text.
\<close>

theorem error_rendering:
  "(json_result (json_replies n (length (sent n))) = JObj kvs \<and> map_of kvs ''error'' = Some e \<longrightarrow>
      (chosen m p r = Some (k, v) \<and> (k = ''pairs'' \<or> JSON_parse_ok v) \<longrightarrow>
         fst (rename_multi_variables fi m p r n) = Inr (''Error: '' @ to_str e))
      \<and> fst (get_data_decl s len n) = Inr (''Error: '' @ to_str e)
      \<and> fst (patch_bytes address bytes save n) = Inr (''Error: '' @ to_str e)
      \<and> fst (get_stack_frame_vars s n) = Inr [])
   \<and> (json_result (json_replies n (Suc (length (sent n)))) = JObj kvs
        \<and> map_of kvs ''error'' = Some e \<longrightarrow>
      fst (fetch_disassembly name n) =
        Inr (''File: '' @ to_str (fst (getActiveFilename n)) @ [newline, newline]
             @ ''Error: '' @ to_str e))"
proof (intro conjI impI)
  assume h: "json_result (json_replies n (length (sent n))) = JObj kvs \<and> map_of kvs ''error'' = Some e"
  then show "fst (get_data_decl s len n) = Inr (''Error: '' @ to_str e)"
    by (simp add: get_data_decl_error)
  from h show "fst (patch_bytes address bytes save n) = Inr (''Error: '' @ to_str e)"
    by (simp add: patch_bytes_error)
  from h show "fst (get_stack_frame_vars s n) = Inr []"
    by (simp add: get_stack_frame_vars_error)
  assume "chosen m p r = Some (k, v) \<and> (k = ''pairs'' \<or> JSON_parse_ok v)"
  with h show "fst (rename_multi_variables fi m p r n) = Inr (''Error: '' @ to_str e)"
    by (intro rename_multi_variables_error [where k = k and v = v and kvs = kvs]) auto
next
  assume "json_result (json_replies n (Suc (length (sent n)))) = JObj kvs
        \<and> map_of kvs ''error'' = Some e"
  then show "fst (fetch_disassembly name n) =
        Inr (''File: '' @ to_str (fst (getActiveFilename n)) @ [newline, newline]
             @ ''Error: '' @ to_str e)"
    by (simp add: fetch_disassembly_error)
qed

theorem error_rendering_witness:
  "fst (rename_multi_variables ''main'' None (Some ''a:b'') None
         (scripted [ok (JObj [(''error'', JStr ''Function not found'')])] []))
     = Inr ''Error: Function not found''
   \<and> fst (get_data_decl ''g_table'' (- 1)
         (scripted [ok (JObj [(''error'', JStr ''Function not found'')])] []))
     = Inr ''Error: Function not found''
   \<and> fst (patch_bytes ''0x401000'' ''9090'' True
         (scripted [ok (JObj [(''error'', JStr ''Function not found'')])] []))
     = Inr ''Error: Function not found''
   \<and> fst (get_stack_frame_vars ''main''
         (scripted [ok (JObj [(''error'', JStr ''Function not found'')])] []))
     = Inr []
   \<and> fst (fetch_disassembly ''main''
         (scripted [ok (JObj [(''filename'', JStr ''a.out'')]),
                    ok (JObj [(''error'', JStr ''Function not found'')])] []))
     = Inr ''File: a.out\<newline>\<newline>Error: Function not found''
   \<and> fst (patch_bytes ''0x401000'' ''9090'' True offline)
     = Inr ''Error: Request failed: No response from server - is Binary Ninja running with the MCP plugin?''"
proof -
  let ?n1 = "scripted [ok (JObj [(''error'', JStr ''Function not found'')])] []"
  let ?n2 = "scripted [ok (JObj [(''filename'', JStr ''a.out'')]),
                       ok (JObj [(''error'', JStr ''Function not found'')])] []"
  have r1: "json_result (json_replies ?n1 (length (sent ?n1))) =
      JObj [(''error'', JStr ''Function not found'')]"
    by (simp add: scripted_def ok_def json_result_def client_get_def validateStatus_def getJson_body_def)
  have r2: "json_result (json_replies ?n2 (Suc (length (sent ?n2)))) =
      JObj [(''error'', JStr ''Function not found'')]"
    by (simp add: scripted_def ok_def json_result_def client_get_def validateStatus_def getJson_body_def)
  have r3: "json_result (json_replies offline (length (sent offline))) =
      JObj [(''error'', JStr (''Request failed: '' @ hint))]"
    by (simp add: offline_def scripted_def json_result_def client_get_def getJson_body_def
          refused_def hint_def)
  have c: "chosen None (Some ''a:b'') None = Some (''pairs'', ''a:b'')"
    by (simp add: chosen_def given_def arg_str_def)
  have f: "fst (getActiveFilename ?n2) = JStr ''a.out''"
    by code_simp
  note t1 = error_rendering
    [where n = ?n1
       and kvs = "[(''error'', JStr ''Function not found'')]" and e = "JStr ''Function not found''"
       and m = None and p = "Some ''a:b''" and r = None and k = "''pairs''" and v = "''a:b''"
       and fi = "''main''" and s = "''g_table''" and len = "- 1"
       and address = "''0x401000''" and bytes = "''9090''" and save = True, THEN conjunct1]
  note t2 = error_rendering
    [where n = ?n1
       and kvs = "[(''error'', JStr ''Function not found'')]" and e = "JStr ''Function not found''"
       and s = "''main''", THEN conjunct1]
  note t3 = error_rendering
    [where n = ?n2
       and kvs = "[(''error'', JStr ''Function not found'')]" and e = "JStr ''Function not found''"
       and name = "''main''", THEN conjunct2]
  note t4 = error_rendering
    [where n = offline
       and kvs = "[(''error'', JStr (''Request failed: '' @ hint))]"
       and e = "JStr (''Request failed: '' @ hint)"
       and address = "''0x401000''" and bytes = "''9090''" and save = True, THEN conjunct1]
  have w1: "fst (rename_multi_variables ''main'' None (Some ''a:b'') None ?n1)
        = Inr ''Error: Function not found''"
    and w2: "fst (get_data_decl ''g_table'' (- 1) ?n1) = Inr ''Error: Function not found''"
    and w3: "fst (patch_bytes ''0x401000'' ''9090'' True ?n1) = Inr ''Error: Function not found''"
    using t1 r1 c by simp_all
  have w4: "fst (get_stack_frame_vars ''main'' ?n1) = Inr []"
    using t2 r1 by simp
  have w5: "fst (fetch_disassembly ''main'' ?n2) =
      Inr ''File: a.out\<newline>\<newline>Error: Function not found''"
    using t3 r2 f by (simp add: newline_def)
  have w6: "fst (patch_bytes ''0x401000'' ''9090'' True offline)
     = Inr ''Error: Request failed: No response from server - is Binary Ninja running with the MCP plugin?''"
    using t4 r3 by (simp add: hint_def)
  from w1 w2 w3 w4 w5 w6 show ?thesis
    by blast
qed


section \<open>The payload of a partial patch\<close>

lemma includes_str_if: "includes_str s sub \<Longrightarrow> includes_str (if c then s @ t else s) sub"
  by (simp add: includes_str_append)

lemma includes_str_suffix: "includes_str (s @ sub) sub"
  using includes_str_mid [of s sub "[]"] by simp

lemma patch_bytes_partial:
  fixes address :: string and kvs :: "(string \<times> json) list"
  assumes d: "json_result (json_replies n (length (sent n))) = JObj kvs"
    and ne: "map_of kvs ''error'' = None"
    and st: "map_of kvs ''status'' = Some (JStr ''partial'')"
    and bw: "map_of kvs ''bytes_written'' = Some (JNum 2)"
    and br: "map_of kvs ''bytes_requested'' = Some (JNum 4)"
  defines "warning \<equiv> js_or (map_of kvs ''warning'') (JStr [])"
    and "orig \<equiv> js_or (map_of kvs ''original_bytes'') (JStr [])"
    and "patched \<equiv> js_or (map_of kvs ''patched_bytes'') (JStr [])"
    and "saved \<equiv> js_or (map_of kvs ''saved_to_file'') (JBool False)"
    and "savedPath \<equiv> js_or (map_of kvs ''saved_path'') (JStr [])"
  defines "msg1 \<equiv> ''Patched 2/4 bytes at '' @ address @ '' (PARTIAL WRITE)''"
  defines "msg2 \<equiv> (if truthy warning then msg1 @ [newline] @ ''Warning: '' @ to_str warning else msg1)"
  defines "msg3 \<equiv> (if truthy orig then msg2 @ [newline] @ ''Original: '' @ to_str orig else msg2)"
  defines "msg4 \<equiv> (if truthy patched then msg3 @ [newline] @ ''Patched:  '' @ to_str patched else msg3)"
  defines "msg5 \<equiv> (if truthy saved then msg4 @ [newline] @ ''Saved to file: '' @ to_str savedPath else msg4)"
  shows "fst (patch_bytes address bytes save n) = Inr msg5"
proof -
  have k: "has_key ''error'' (JObj kvs) = Inr False"
    using ne by (rule has_key_absent)
  have n2: "num_str 2 = ''2''" and n4: "num_str 4 = ''4''"
    by code_simp+
  show ?thesis
    unfolding msg5_def msg4_def msg3_def msg2_def msg1_def warning_def orig_def patched_def
      saved_def savedPath_def
    by (simp add: patch_bytes_def getJson_def d k st bw br Let_def js_or_def n2 n4
        del: has_key.simps)
qed


text \<open>
  Claim C9: for a \<^verbatim>\<open>patch_bytes\<close> call where the remote response (one without an \<^verbatim>\<open>error\<close>
  field) has status \<^verbatim>\<open>partial\<close>, \<^verbatim>\<open>bytes_written\<close> 2 and \<^verbatim>\<open>bytes_requested\<close> 4, the payload
  contains \<^verbatim>\<open>2/4 bytes\<close> and the marker \<^verbatim>\<open>(PARTIAL WRITE)\<close>; when the response reports
  \<^verbatim>\<open>saved_to_file\<close> true the payload also includes the save path, and the original and
  patched byte dumps are included when present.
\<close>

theorem patch_bytes_partial_write:
  "json_result (json_replies n (length (sent n))) = JObj kvs
     \<and> map_of kvs ''error'' = None
     \<and> map_of kvs ''status'' = Some (JStr ''partial'')
     \<and> map_of kvs ''bytes_written'' = Some (JNum 2)
     \<and> map_of kvs ''bytes_requested'' = Some (JNum 4) \<longrightarrow>
   payload_includes (patch_bytes address bytes save n) ''2/4 bytes''
   \<and> payload_includes (patch_bytes address bytes save n) ''(PARTIAL WRITE)''
   \<and> payload_includes (patch_bytes address bytes save n)
        (''Patched 2/4 bytes at '' @ address @ '' (PARTIAL WRITE)'')
   \<and> (map_of kvs ''saved_to_file'' = Some (JBool True)
        \<and> map_of kvs ''saved_path'' = Some (JStr path) \<longrightarrow>
      payload_includes (patch_bytes address bytes save n) (''Saved to file: '' @ path))
   \<and> (map_of kvs ''original_bytes'' = Some (JStr orig) \<and> orig \<noteq> [] \<longrightarrow>
      payload_includes (patch_bytes address bytes save n) (''Original: '' @ orig))
   \<and> (map_of kvs ''patched_bytes'' = Some (JStr patched) \<and> patched \<noteq> [] \<longrightarrow>
      payload_includes (patch_bytes address bytes save n) (''Patched:  '' @ patched))"
proof (rule impI)
  assume h: "json_result (json_replies n (length (sent n))) = JObj kvs
     \<and> map_of kvs ''error'' = None
     \<and> map_of kvs ''status'' = Some (JStr ''partial'')
     \<and> map_of kvs ''bytes_written'' = Some (JNum 2)
     \<and> map_of kvs ''bytes_requested'' = Some (JNum 4)"
  define warning where "warning = js_or (map_of kvs ''warning'') (JStr [])"
  define o_bytes where "o_bytes = js_or (map_of kvs ''original_bytes'') (JStr [])"
  define p_bytes where "p_bytes = js_or (map_of kvs ''patched_bytes'') (JStr [])"
  define saved where "saved = js_or (map_of kvs ''saved_to_file'') (JBool False)"
  define savedPath where "savedPath = js_or (map_of kvs ''saved_path'') (JStr [])"
  define msg1 where "msg1 = ''Patched 2/4 bytes at '' @ address @ '' (PARTIAL WRITE)''"
  define msg2 where
    "msg2 = (if truthy warning then msg1 @ [newline] @ ''Warning: '' @ to_str warning else msg1)"
  define msg3 where
    "msg3 = (if truthy o_bytes then msg2 @ [newline] @ ''Original: '' @ to_str o_bytes else msg2)"
  define msg4 where
    "msg4 = (if truthy p_bytes then msg3 @ [newline] @ ''Patched:  '' @ to_str p_bytes else msg3)"
  define msg5 where
    "msg5 = (if truthy saved then msg4 @ [newline] @ ''Saved to file: '' @ to_str savedPath
             else msg4)"
  have pay: "fst (patch_bytes address bytes save n) = Inr msg5"
    unfolding msg5_def msg4_def msg3_def msg2_def msg1_def warning_def o_bytes_def p_bytes_def
      saved_def savedPath_def
    using h by (intro patch_bytes_partial) simp_all
  have up3: "includes_str msg3 sub \<Longrightarrow> includes_str msg5 sub" for sub
    unfolding msg5_def msg4_def by (intro includes_str_if)
  have up4: "includes_str msg4 sub \<Longrightarrow> includes_str msg5 sub" for sub
    unfolding msg5_def by (intro includes_str_if)
  have up1: "includes_str msg1 sub \<Longrightarrow> includes_str msg5 sub" for sub
    by (rule up3, unfold msg3_def msg2_def) (intro includes_str_if)
  have "includes_str msg1 ''2/4 bytes''"
    using includes_str_mid [of "''Patched ''" "''2/4 bytes''" "'' at '' @ address @ '' (PARTIAL WRITE)''"]
    by (simp add: msg1_def)
  then have c1: "payload_includes (patch_bytes address bytes save n) ''2/4 bytes''"
    by (simp add: payload_includes_def pay up1)
  have "includes_str msg1 ''(PARTIAL WRITE)''"
    using includes_str_suffix [of "''Patched 2/4 bytes at '' @ address @ '' ''" "''(PARTIAL WRITE)''"]
    by (simp add: msg1_def)
  then have c2: "payload_includes (patch_bytes address bytes save n) ''(PARTIAL WRITE)''"
    by (simp add: payload_includes_def pay up1)
  have "includes_str msg1 msg1"
    using includes_str_suffix [of "[]" msg1] by simp
  then have c3: "payload_includes (patch_bytes address bytes save n)
        (''Patched 2/4 bytes at '' @ address @ '' (PARTIAL WRITE)'')"
    unfolding payload_includes_def pay using up1 [of msg1] by (simp add: msg1_def)
  have c4: "payload_includes (patch_bytes address bytes save n) (''Saved to file: '' @ path)"
    if "map_of kvs ''saved_to_file'' = Some (JBool True) \<and> map_of kvs ''saved_path'' = Some (JStr path)"
  proof -
    from that have "msg5 = (msg4 @ [newline]) @ ''Saved to file: '' @ path"
      by (auto simp: msg5_def saved_def savedPath_def js_or_def)
    then have "includes_str msg5 (''Saved to file: '' @ path)"
      using includes_str_suffix [of "msg4 @ [newline]" "''Saved to file: '' @ path"] by simp
    then show ?thesis
      by (simp add: payload_includes_def pay)
  qed
  have c5: "payload_includes (patch_bytes address bytes save n) (''Original: '' @ orig)"
    if "map_of kvs ''original_bytes'' = Some (JStr orig) \<and> orig \<noteq> []"
  proof -
    from that have "msg3 = (msg2 @ [newline]) @ ''Original: '' @ orig"
      by (auto simp: msg3_def o_bytes_def js_or_def)
    then have "includes_str msg3 (''Original: '' @ orig)"
      using includes_str_suffix [of "msg2 @ [newline]" "''Original: '' @ orig"] by simp
    then show ?thesis
      by (simp add: payload_includes_def pay up3)
  qed
  have c6: "payload_includes (patch_bytes address bytes save n) (''Patched:  '' @ patched)"
    if "map_of kvs ''patched_bytes'' = Some (JStr patched) \<and> patched \<noteq> []"
  proof -
    from that have "msg4 = (msg3 @ [newline]) @ ''Patched:  '' @ patched"
      by (auto simp: msg4_def p_bytes_def js_or_def)
    then have "includes_str msg4 (''Patched:  '' @ patched)"
      using includes_str_suffix [of "msg3 @ [newline]" "''Patched:  '' @ patched"] by simp
    then show ?thesis
      by (simp add: payload_includes_def pay up4)
  qed
  from c1 c2 c3 c4 c5 c6 show
   "payload_includes (patch_bytes address bytes save n) ''2/4 bytes''
   \<and> payload_includes (patch_bytes address bytes save n) ''(PARTIAL WRITE)''
   \<and> payload_includes (patch_bytes address bytes save n)
        (''Patched 2/4 bytes at '' @ address @ '' (PARTIAL WRITE)'')
   \<and> (map_of kvs ''saved_to_file'' = Some (JBool True)
        \<and> map_of kvs ''saved_path'' = Some (JStr path) \<longrightarrow>
      payload_includes (patch_bytes address bytes save n) (''Saved to file: '' @ path))
   \<and> (map_of kvs ''original_bytes'' = Some (JStr orig) \<and> orig \<noteq> [] \<longrightarrow>
      payload_includes (patch_bytes address bytes save n) (''Original: '' @ orig))
   \<and> (map_of kvs ''patched_bytes'' = Some (JStr patched) \<and> patched \<noteq> [] \<longrightarrow>
      payload_includes (patch_bytes address bytes save n) (''Patched:  '' @ patched))"
    by blast
qed

theorem patch_bytes_partial_write_witness:
  "fst (patch_bytes ''0x401000'' ''90909090'' True partial_patch) =
     Inr ''Patched 2/4 bytes at 0x401000 (PARTIAL WRITE)\<newline>Original: 55 48\<newline>Patched:  90 90\<newline>Saved to file: /tmp/a.patched''
   \<and> payload_includes (patch_bytes ''0x401000'' ''90909090'' True partial_patch) ''2/4 bytes''
   \<and> payload_includes (patch_bytes ''0x401000'' ''90909090'' True partial_patch) ''(PARTIAL WRITE)''
   \<and> payload_includes (patch_bytes ''0x401000'' ''90909090'' True partial_patch)
        ''Saved to file: /tmp/a.patched''
   \<and> payload_includes (patch_bytes ''0x401000'' ''90909090'' True partial_patch) ''Original: 55 48''
   \<and> payload_includes (patch_bytes ''0x401000'' ''90909090'' True partial_patch) ''Patched:  90 90''"
proof -
  have r: "json_result (json_replies partial_patch (length (sent partial_patch))) =
      JObj [(''status'', JStr ''partial''), (''bytes_written'', JNum 2),
            (''bytes_requested'', JNum 4), (''original_bytes'', JStr ''55 48''),
            (''patched_bytes'', JStr ''90 90''), (''saved_to_file'', JBool True),
            (''saved_path'', JStr ''/tmp/a.patched'')]"
    by (simp add: partial_patch_def scripted_def ok_def json_result_def client_get_def validateStatus_def getJson_body_def)
  have e: "fst (patch_bytes ''0x401000'' ''90909090'' True partial_patch) =
     Inr ''Patched 2/4 bytes at 0x401000 (PARTIAL WRITE)\<newline>Original: 55 48\<newline>Patched:  90 90\<newline>Saved to file: /tmp/a.patched''"
    by code_simp
  note t = patch_bytes_partial_write
    [where n = partial_patch and address = "''0x401000''" and bytes = "''90909090''"
       and save = True and path = "''/tmp/a.patched''" and orig = "''55 48''"
       and patched = "''90 90''"
       and kvs = "[(''status'', JStr ''partial''), (''bytes_written'', JNum 2),
            (''bytes_requested'', JNum 4), (''original_bytes'', JStr ''55 48''),
            (''patched_bytes'', JStr ''90 90''), (''saved_to_file'', JBool True),
            (''saved_path'', JStr ''/tmp/a.patched'')]"]
  show ?thesis
    using t r e by simp
qed

end
